theory Spec2Isabelle
  imports Complex_Main "HOL-Library.Word" "HOL-Library.AList"
begin

section \<open>Python values and exceptions\<close>

text \<open>
  The model follows \<^verbatim>\<open>app/services/selenium_manager.py\<close>. Every exception the manager
  raises itself, and every exception a collaborator (SeleniumBase, requests, psutil, the
  file system) may raise, is a value of \<open>error\<close>. \<open>LibraryError\<close> stands for
  an instance of a subclass of Python's \<^verbatim>\<open>Exception\<close> raised by a collaborator;
  \<open>BaseOnly\<close> for a \<^verbatim>\<open>BaseException\<close> that is not an \<^verbatim>\<open>Exception\<close>
  (\<^verbatim>\<open>KeyboardInterrupt\<close>, \<^verbatim>\<open>SystemExit\<close>), which \<^verbatim>\<open>except Exception\<close> lets
  through and a bare \<^verbatim>\<open>except:\<close> catches.
\<close>

datatype error =
    AlreadyRunning string
  | NotRunning string
  | ValueError string
  | LibraryError string
  | BaseOnly string

fun is_Exception :: "error \<Rightarrow> bool" where
  "is_Exception (BaseOnly _) = False"
| "is_Exception _ = True"

text \<open>A decoded JSON document, as \<^verbatim>\<open>response.json()\<close> returns it.\<close>

datatype json =
    JNull
  | JBool bool
  | JNum int
  | JStr string
  | JArr "json list"
  | JObj "(string \<times> json) list"

section \<open>The driver, the registry entry and the external calls\<close>

text \<open>
  What the manager reads from a SeleniumBase driver. \<open>port\<close> is \<open>None\<close> when the
  service object has no attribute \<^verbatim>\<open>port\<close>, \<open>process\<close> is \<open>None\<close> when
  \<^verbatim>\<open>service.process\<close> is falsy and the process id otherwise. In \<open>driver\<close>,
  \<open>service\<close> is \<open>None\<close> when \<^verbatim>\<open>hasattr(driver, "service")\<close> is false,
  \<open>chrome_options\<close> is the entry \<^verbatim>\<open>goog:chromeOptions\<close> of the capabilities when
  present, \<open>browser_pid\<close> is \<open>None\<close> when the attribute is missing and
  \<open>Some None\<close> when it holds Python's \<^verbatim>\<open>None\<close>. \<open>handle\<close> identifies the
  browser the context manager owns.
\<close>

record service =
  port :: "int option"
  process :: "nat option"

record driver =
  handle :: nat
  service :: "service option"
  chrome_options :: "(string \<times> string) list option"
  browser_pid :: "nat option option"

text \<open>One value of the dictionary \<^verbatim>\<open>running_profiles\<close>.\<close>

record session =
  sb_context :: nat
  sb :: nat
  driver :: driver
  pid :: "nat option"
  debug_port :: int
  websocket_url :: json
  started_at :: nat

text \<open>Commands sent with \<^verbatim>\<open>driver.execute_cdp_cmd\<close>; \<open>'f\<close> is Python's float.\<close>

datatype 'f cdp_cmd =
    SetBlockedURLs "string list"
  | SetUserAgentOverride string
  | AddScriptToEvaluateOnNewDocument string
  | SetTimezoneOverride string
  | GrantPermissions "string list"
  | SetGeolocationOverride 'f 'f int

text \<open>
  The calls the manager makes on the world outside it, in the order it makes them. A call
  is recorded when it is made, whether it then returns or raises.
\<close>

datatype 'f event =
    MakeDirs string
  | SBEnter string string string
  | DriverGet nat string
  | ExecuteScript nat string
  | RequestsGet string
  | RandInt int int
  | ActivateCdpMode nat string
  | ExecuteCdpCmd nat "'f cdp_cmd"
  | Reconnect nat
  | SBExit nat
  | ProcessTerminate nat
  | ProcessWait nat nat

text \<open>
  The outcome of every external call of one invocation: \<open>None\<close> (or \<open>Inr\<close>) when
  the call returns, \<open>Some e\<close> (or \<open>Inl e\<close>) when it raises \<open>e\<close>. The arithmetic of
  Python's floats (\<open>truediv\<close>, \<open>fadd\<close>, \<open>round_ndigits\<close>, \<open>float_of_int\<close>) and the
  parsers \<^verbatim>\<open>int()\<close> and \<^verbatim>\<open>float()\<close> are parameters as well. \<open>randbelow n\<close> is
  the generator's draw below \<open>n\<close>.
\<close>

record 'f env =
  abspath :: "string \<Rightarrow> string"
  makedirs :: "string \<Rightarrow> error option"
  sb_enter :: "string \<Rightarrow> string \<Rightarrow> string \<Rightarrow> error + driver"
  driver_get :: "nat \<Rightarrow> string \<Rightarrow> error option"
  execute_script :: "nat \<Rightarrow> string \<Rightarrow> error option"
  requests_get_json :: "string \<Rightarrow> error + json"
  parse_int :: "string \<Rightarrow> int option"
  parse_float :: "string \<Rightarrow> 'f option"
  randbelow :: "nat \<Rightarrow> nat"
  activate_cdp_mode :: "nat \<Rightarrow> string \<Rightarrow> error option"
  execute_cdp_cmd :: "nat \<Rightarrow> 'f cdp_cmd \<Rightarrow> error option"
  reconnect :: "nat \<Rightarrow> error option"
  sb_exit :: "nat \<Rightarrow> error option"
  process_terminate :: "nat \<Rightarrow> error option"
  process_wait :: "nat \<Rightarrow> nat \<Rightarrow> error option"
  memory_rss :: "nat \<Rightarrow> error + int"
  now :: nat
  float_of_int :: "int \<Rightarrow> 'f"
  truediv :: "int \<Rightarrow> int \<Rightarrow> 'f"
  fadd :: "'f \<Rightarrow> 'f \<Rightarrow> 'f"
  round_ndigits :: "'f \<Rightarrow> int \<Rightarrow> 'f"

text \<open>
  The manager: the dictionary \<^verbatim>\<open>running_profiles\<close> in insertion order (Python
  dictionaries keep it), and the external calls made so far.
\<close>

record 'f manager =
  running_profiles :: "(string \<times> session) list"
  trace :: "'f event list"

section \<open>Computations that call the world and may raise\<close>

type_synonym ('f, 'a) io = "(error + 'a) \<times> 'f event list"

definition io_return :: "'a \<Rightarrow> ('f, 'a) io" where
  "io_return x = (Inr x, [])"

definition io_raise :: "error \<Rightarrow> ('f, 'a) io" where
  "io_raise e = (Inl e, [])"

definition io_bind :: "('f, 'a) io \<Rightarrow> ('a \<Rightarrow> ('f, 'b) io) \<Rightarrow> ('f, 'b) io" where
  "io_bind m f =
     (case m of
        (Inl e, w) \<Rightarrow> (Inl e, w)
      | (Inr a, w) \<Rightarrow> (case f a of (r, w') \<Rightarrow> (r, w @ w')))"

definition call :: "'f event \<Rightarrow> error option \<Rightarrow> ('f, unit) io" where
  "call ev outcome = ((case outcome of None \<Rightarrow> Inr () | Some e \<Rightarrow> Inl e), [ev])"

definition call_value :: "'f event \<Rightarrow> error + 'a \<Rightarrow> ('f, 'a) io" where
  "call_value ev outcome = (outcome, [ev])"

text \<open>\<^verbatim>\<open>try: m except: h\<close> (a bare except catches every exception).\<close>

definition try_except :: "('f, 'a) io \<Rightarrow> (error \<Rightarrow> ('f, 'a) io) \<Rightarrow> ('f, 'a) io" where
  "try_except m h =
     (case m of
        (Inl e, w) \<Rightarrow> (case h e of (r, w') \<Rightarrow> (r, w @ w'))
      | (Inr a, w) \<Rightarrow> (Inr a, w))"

text \<open>\<^verbatim>\<open>try: m except Exception as e: h\<close>.\<close>

definition try_except_Exception ::
  "('f, 'a) io \<Rightarrow> (error \<Rightarrow> ('f, 'a) io) \<Rightarrow> ('f, 'a) io" where
  "try_except_Exception m h =
     (case m of
        (Inl e, w) \<Rightarrow>
          (if is_Exception e then (case h e of (r, w') \<Rightarrow> (r, w @ w')) else (Inl e, w))
      | (Inr a, w) \<Rightarrow> (Inr a, w))"

section \<open>Stopping sessions\<close>

definition is_running :: "'f manager \<Rightarrow> string \<Rightarrow> bool" where
  "is_running self profile_id = (map_of (running_profiles self) profile_id \<noteq> None)"

text \<open>
  The forced kill inside the handler of \<^verbatim>\<open>stop_profile\<close>. The outcome
  \<open>process_terminate\<close> covers \<^verbatim>\<open>psutil.Process(pid)\<close> and
  \<^verbatim>\<open>process.terminate()\<close>.
\<close>

definition force_kill :: "'f env \<Rightarrow> session \<Rightarrow> ('f, unit) io" where
  "force_kill env profile_data =
     try_except
       (case pid profile_data of
          None \<Rightarrow> io_return ()
        | Some p \<Rightarrow>
            if p \<noteq> 0 then
              io_bind (call (ProcessTerminate p) (process_terminate env p))
                (\<lambda>_. call (ProcessWait p 5) (process_wait env p 5))
            else io_return ())
       (\<lambda>_. io_return ())"

text \<open>
  \<^verbatim>\<open>stop_profile\<close>: the \<^verbatim>\<open>finally\<close> clause deletes the entry whether the body
  returned or raised.
\<close>

definition stop_profile ::
  "'f env \<Rightarrow> string \<Rightarrow> 'f manager \<Rightarrow> (error + unit) \<times> 'f manager" where
  "stop_profile env profile_id self =
     (case map_of (running_profiles self) profile_id of
        None \<Rightarrow>
          (Inl (NotRunning (''Profile '' @ profile_id @ '' is not running'')), self)
      | Some profile_data \<Rightarrow>
          (case try_except_Exception
                  (call (SBExit (sb_context profile_data))
                     (sb_exit env (sb_context profile_data)))
                  (\<lambda>e. force_kill env profile_data) of
             (r, w) \<Rightarrow>
               (r, self\<lparr>running_profiles := AList.delete profile_id (running_profiles self),
                        trace := trace self @ w\<rparr>)))"

text \<open>
  \<^verbatim>\<open>close_all\<close>: the loop over the snapshot of the keys. Its bare except drops
  whatever a stop raises, so only the manager a stop leaves behind goes on.
\<close>

fun close_each :: "'f env \<Rightarrow> string list \<Rightarrow> 'f manager \<Rightarrow> 'f manager" where
  "close_each env [] self = self"
| "close_each env (profile_id # profile_ids) self =
     close_each env profile_ids (snd (stop_profile env profile_id self))"

definition close_all :: "'f env \<Rightarrow> 'f manager \<Rightarrow> 'f manager" where
  "close_all env self = close_each env (map fst (running_profiles self)) self"

section \<open>Strings\<close>

text \<open>
  \<^verbatim>\<open>str(n)\<close> of an integer, as the f-strings of the source format it.
\<close>

function str_nat :: "nat \<Rightarrow> string" where
  "str_nat n =
     (if n < 10 then [''0123456789'' ! n]
      else str_nat (n div 10) @ [''0123456789'' ! (n mod 10)])"
  by pat_completeness auto
termination
  by (relation "measure (\<lambda>n. n)") auto

declare str_nat.simps [simp del]

definition str_int :: "int \<Rightarrow> string" where
  "str_int i = (if i < 0 then CHR ''-'' # str_nat (nat (- i)) else str_nat (nat i))"

text \<open>\<^verbatim>\<open>s.split(sep)\<close> for a separator of one character.\<close>

fun split_on :: "char \<Rightarrow> string \<Rightarrow> string list" where
  "split_on sep [] = [[]]"
| "split_on sep (c # cs) =
     (if c = sep then [] # split_on sep cs
      else (case split_on sep cs of [] \<Rightarrow> [[c]] | w # ws \<Rightarrow> (c # w) # ws))"

text \<open>\<^verbatim>\<open>sep.join(xs)\<close>.\<close>

fun join :: "string \<Rightarrow> string list \<Rightarrow> string" where
  "join sep [] = []"
| "join sep [x] = x"
| "join sep (x # y # ys) = x @ sep @ join sep (y # ys)"

text \<open>\<^verbatim>\<open>sub in s\<close> on strings.\<close>

fun starts_with :: "string \<Rightarrow> string \<Rightarrow> bool" where
  "starts_with s [] = True"
| "starts_with [] (c # sub) = False"
| "starts_with (d # s) (c # sub) = (d = c \<and> starts_with s sub)"

fun str_contains :: "string \<Rightarrow> string \<Rightarrow> bool" where
  "str_contains [] sub = (sub = [])"
| "str_contains (c # s) sub = (starts_with (c # s) sub \<or> str_contains s sub)"

text \<open>\<^verbatim>\<open>s.lower()\<close>, on the ASCII letters.\<close>

definition lower_char :: "char \<Rightarrow> char" where
  "lower_char c =
     (if 65 \<le> (of_char c :: nat) \<and> (of_char c :: nat) \<le> 90
      then char_of ((of_char c :: nat) + 32) else c)"

definition lower :: "string \<Rightarrow> string" where
  "lower s = map lower_char s"

text \<open>Truth values: \<^verbatim>\<open>None\<close>, the empty string and 0 are false.\<close>

definition truthy_str :: "string option \<Rightarrow> bool" where
  "truthy_str s = (case s of None \<Rightarrow> False | Some t \<Rightarrow> t \<noteq> [])"

text \<open>\<^verbatim>\<open>x or d\<close> on an optional integer.\<close>

definition int_or :: "int option \<Rightarrow> int \<Rightarrow> int" where
  "int_or x d = (case x of None \<Rightarrow> d | Some n \<Rightarrow> if n = 0 then d else n)"

section \<open>The profile\<close>

text \<open>
  The columns of \<^verbatim>\<open>app/models/profile.py\<close> that the manager reads. A column declared
  \<^verbatim>\<open>nullable=False\<close> is a string, any other an option.
\<close>

record profile =
  id' :: string
  name :: string
  os :: string
  user_agent :: string
  screen_resolution :: string
  language :: string
  timezone :: "string option"
  geolocation :: "string option"
  cpu_cores :: "int option"
  memory_gb :: "int option"
  webgl_vendor :: "string option"
  webgl_renderer :: "string option"
  proxy_string :: "string option"
  webrtc_mode :: "string option"
  canvas_mode :: "string option"
  audio_mode :: "string option"
  stealth_tier :: "string option"
  adblock_enabled :: bool

section \<open>Launch arguments\<close>

text \<open>
  \<^verbatim>\<open>width, height = profile.screen_resolution.split('x')\<close>: unpacking a list that
  has not exactly two elements raises \<^verbatim>\<open>ValueError\<close>.
\<close>

definition unpack_pair :: "'a list \<Rightarrow> error + 'a \<times> 'a" where
  "unpack_pair xs =
     (case xs of
        [a, b] \<Rightarrow> Inr (a, b)
      | a # b # c # _ \<Rightarrow> Inl (ValueError ''too many values to unpack (expected 2)'')
      | _ \<Rightarrow>
          Inl (ValueError (''not enough values to unpack (expected 2, got ''
                 @ str_nat (length xs) @ '')'')))"

definition build_chrome_options ::
  "profile \<Rightarrow> string \<Rightarrow> string list \<Rightarrow> error + string list" where
  "build_chrome_options profile user_data_dir extra_flags =
     (case (if screen_resolution profile \<noteq> [] then
              (case unpack_pair (split_on CHR ''x'' (screen_resolution profile)) of
                 Inl e \<Rightarrow> Inl e
               | Inr (width, height) \<Rightarrow> Inr [''--window-size='' @ width @ '','' @ height])
            else Inr []) of
        Inl e \<Rightarrow> Inl e
      | Inr options \<Rightarrow>
          Inr (options
               @ (if truthy_str (proxy_string profile)
                  then [''--proxy-server='' @ the (proxy_string profile)] else [])
               @ (if webrtc_mode profile = Some ''disabled'' then [''--disable-webrtc''] else [])
               @ extra_flags))"

section \<open>Endpoint resolution\<close>

definition get_debug_port :: "(string \<Rightarrow> int option) \<Rightarrow> driver \<Rightarrow> int" where
  "get_debug_port int_of_str drv =
     (case (case service drv of None \<Rightarrow> None | Some sv \<Rightarrow> port sv) of
        Some p \<Rightarrow> p
      | None \<Rightarrow>
          (case chrome_options drv of
             None \<Rightarrow> 9222
           | Some opts \<Rightarrow>
               (let debug_addr =
                      (case map_of opts ''debuggerAddress'' of None \<Rightarrow> [] | Some a \<Rightarrow> a)
                in if CHR '':'' \<in> set debug_addr
                   then (case int_of_str (split_on CHR '':'' debug_addr ! 1) of
                           None \<Rightarrow> 9222
                         | Some n \<Rightarrow> n)
                   else 9222)))"

text \<open>
  \<open>requests_get_json\<close> is the outcome of \<^verbatim>\<open>requests.get(url, timeout=5)\<close> followed
  by \<^verbatim>\<open>response.json()\<close>. \<^verbatim>\<open>data.get\<close> exists on a dictionary only; on any
  other value the attribute lookup raises, and the bare except answers.
\<close>

definition get_websocket_url :: "'f env \<Rightarrow> int \<Rightarrow> ('f, json) io" where
  "get_websocket_url env port_number =
     try_except
       (io_bind
          (call_value (RequestsGet (''http://127.0.0.1:'' @ str_int port_number @ ''/json/version''))
             (requests_get_json env
                (''http://127.0.0.1:'' @ str_int port_number @ ''/json/version'')))
          (\<lambda>data.
             case data of
               JObj kv \<Rightarrow>
                 io_return
                   (case map_of kv ''webSocketDebuggerUrl'' of None \<Rightarrow> JStr [] | Some v \<Rightarrow> v)
             | _ \<Rightarrow> io_raise (LibraryError ''AttributeError'')))
       (\<lambda>_. io_return (JStr (''ws://127.0.0.1:'' @ str_int port_number @ ''/devtools/browser'')))"

section \<open>Fingerprint injection\<close>

definition get_platform_from_os :: "string \<Rightarrow> string" where
  "get_platform_from_os os_name =
     (let os_lower = lower os_name in
      if str_contains os_lower ''windows'' then ''Win32''
      else if str_contains os_lower ''mac'' then ''MacIntel''
      else if str_contains os_lower ''linux'' then ''Linux x86_64''
      else if str_contains os_lower ''android'' then ''Linux armv8l''
      else if str_contains os_lower ''iphone'' \<or> str_contains os_lower ''ipad'' then ''iPhone''
      else ''Win32'')"

text \<open>
  \<^verbatim>\<open>random.randint(a, b)\<close> is \<^verbatim>\<open>a + _randbelow(b - a + 1)\<close>, a draw below the
  width of the range.
\<close>

definition randint :: "'f env \<Rightarrow> int \<Rightarrow> int \<Rightarrow> int" where
  "randint env a b = a + int (randbelow env (nat (b - a + 1)) mod nat (b - a + 1))"

text \<open>The fragments of the injected script, character for character.\<close>

definition navigator_script :: "string \<Rightarrow> int \<Rightarrow> int \<Rightarrow> int \<Rightarrow> string" where
  "navigator_script platform cores mem noise_seed =
     ''\<newline>'' @
     ''                // Navigator Spoofing\<newline>'' @
     ''                Object.defineProperty(navigator, 'platform', { get: () => '' @
     [CHR 0x27] @
     platform @
     [CHR 0x27] @
     '' });\<newline>'' @
     ''                Object.defineProperty(navigator, 'hardwareConcurrency', { get: () => '' @
     str_int cores @
     '' });\<newline>'' @
     ''                Object.defineProperty(navigator, 'deviceMemory', { get: () => '' @
     str_int mem @
     '' });\<newline>'' @
     ''                \<newline>'' @
     ''                // Stable Noise Injection (Non-random per pixel to avoid detection)\<newline>'' @
     ''                const NOISE_SEED = '' @
     str_int noise_seed @
     '';\<newline>'' @
     ''            ''"

definition webgl_script :: "string \<Rightarrow> string \<Rightarrow> string" where
  "webgl_script vendor renderer =
     ''\<newline>'' @
     ''                    const getParameter = WebGLRenderingContext.prototype.getParameter;\<newline>'' @
     ''                    WebGLRenderingContext.prototype.getParameter = function(parameter) {\<newline>'' @
     ''                        if (parameter === 37445) return '' @
     [CHR 0x27] @
     vendor @
     [CHR 0x27] @
     '';\<newline>'' @
     ''                        if (parameter === 37446) return '' @
     [CHR 0x27] @
     renderer @
     [CHR 0x27] @
     '';\<newline>'' @
     ''                        // Add some common WebGL limits for better consistency\<newline>'' @
     ''                        if (parameter === 3379) return 16384; // MAX_TEXTURE_SIZE\<newline>'' @
     ''                        return getParameter.apply(this, arguments);\<newline>'' @
     ''                    };\<newline>'' @
     ''                ''"

definition canvas_script :: "string" where
  "canvas_script =
     ''\<newline>'' @
     ''                    const getImageData = CanvasRenderingContext2D.prototype.getImageData;\<newline>'' @
     ''                    CanvasRenderingContext2D.prototype.getImageData = function(x, y, w, h) {\<newline>'' @
     ''                        const imageData = getImageData.apply(this, arguments);\<newline>'' @
     ''                        for (let i = 0; i < imageData.data.length; i += 4) {\<newline>'' @
     ''                            // Stable noise based on pixel index and session seed\<newline>'' @
     ''                            imageData.data[i] = (imageData.data[i] + (NOISE_SEED % 2)) % 256;\<newline>'' @
     ''                        }\<newline>'' @
     ''                        return imageData;\<newline>'' @
     ''                    };\<newline>'' @
     ''                ''"

definition audio_script :: "string" where
  "audio_script =
     ''\<newline>'' @
     ''                    const originalChannelData = AudioBuffer.prototype.getChannelData;\<newline>'' @
     ''                    AudioBuffer.prototype.getChannelData = function() {\<newline>'' @
     ''                        const buffer = originalChannelData.apply(this, arguments);\<newline>'' @
     ''                        const offset = (NOISE_SEED / 1000000);\<newline>'' @
     ''                        for (let i = 0; i < buffer.length; i += 100) {\<newline>'' @
     ''                            buffer[i] += offset;\<newline>'' @
     ''                        }\<newline>'' @
     ''                        return buffer;\<newline>'' @
     ''                    };\<newline>'' @
     ''                ''"

definition elite_script :: "string" where
  "elite_script =
     ''\<newline>'' @
     ''                    // Disable Automation detection flags\<newline>'' @
     ''                    Object.defineProperty(navigator, 'webdriver', { get: () => false });\<newline>'' @
     ''                    \<newline>'' @
     ''                    // Spoof Client Hints\<newline>'' @
     ''                    if (navigator.userAgentData) {\<newline>'' @
     ''                        const originalGetHighEntropyValues = navigator.userAgentData.getHighEntropyValues;\<newline>'' @
     ''                        navigator.userAgentData.getHighEntropyValues = function(hints) {\<newline>'' @
     ''                            return Promise.resolve({\<newline>'' @
     ''                                brands: [\<newline>'' @
     ''                                    {brand: 'Not A(Brand', version: '99'},\<newline>'' @
     ''                                    {brand: 'Google Chrome', version: '120'},\<newline>'' @
     ''                                    {brand: 'Chromium', version: '120'}\<newline>'' @
     ''                                ],\<newline>'' @
     ''                                mobile: false,\<newline>'' @
     ''                                platform: 'Windows'\<newline>'' @
     ''                            });\<newline>'' @
     ''                        };\<newline>'' @
     ''                    }\<newline>'' @
     ''                ''"


definition injection_script :: "profile \<Rightarrow> int \<Rightarrow> string" where
  "injection_script profile noise_seed =
     navigator_script (get_platform_from_os (os profile))
       (int_or (cpu_cores profile) 8) (int_or (memory_gb profile) 8) noise_seed
     @ (if truthy_str (webgl_vendor profile) \<and> truthy_str (webgl_renderer profile)
        then webgl_script (the (webgl_vendor profile)) (the (webgl_renderer profile)) else [])
     @ (if canvas_mode profile = Some ''noise'' then canvas_script else [])
     @ (if audio_mode profile = Some ''noise'' then audio_script else [])
     @ (if stealth_tier profile = Some ''elite'' then elite_script else [])"

definition blocked_urls :: "string list" where
  "blocked_urls =
     [''*.googlesyndication.com*'', ''*.googletagmanager.com*'',
      ''*.google-analytics.com*'', ''*.amazon-adsystem.com*'',
      ''*.doubleclick.net*'', ''*.adsafeprotected.com*'',
      ''*.facebook.net/en_US/fbevents.js*'']"

text \<open>
  \<^verbatim>\<open>lat, lon = map(float, profile.geolocation.split(','))\<close>: the unpacking wants
  exactly two parts and \<^verbatim>\<open>float\<close> must accept both.
\<close>

definition parse_lat_lon :: "'f env \<Rightarrow> string \<Rightarrow> error + 'f \<times> 'f" where
  "parse_lat_lon env g =
     (case split_on CHR '','' g of
        [a, b] \<Rightarrow>
          (case (parse_float env a, parse_float env b) of
             (Some lat, Some lon) \<Rightarrow> Inr (lat, lon)
           | _ \<Rightarrow> Inl (ValueError ''could not convert string to float''))
      | _ \<Rightarrow> Inl (ValueError ''too many values to unpack (expected 2)''))"

text \<open>The geolocation step of \<^verbatim>\<open>_apply_fingerprint_overrides\<close>, with its own handler.\<close>

definition geolocation_override :: "'f env \<Rightarrow> nat \<Rightarrow> profile \<Rightarrow> ('f, unit) io" where
  "geolocation_override env h profile =
     (if truthy_str (geolocation profile) \<and> CHR '','' \<in> set (the (geolocation profile)) then
        try_except
          (io_bind
             (case parse_lat_lon env (the (geolocation profile)) of
                Inl e \<Rightarrow> io_raise e
              | Inr p \<Rightarrow> io_return p)
             (\<lambda>(lat, lon).
                io_bind
                  (call (ExecuteCdpCmd h (GrantPermissions [''geolocation'']))
                     (execute_cdp_cmd env h (GrantPermissions [''geolocation''])))
                  (\<lambda>_. call (ExecuteCdpCmd h (SetGeolocationOverride lat lon 100))
                           (execute_cdp_cmd env h (SetGeolocationOverride lat lon 100)))))
          (\<lambda>_. io_return ())
      else io_return ())"

definition apply_fingerprint_overrides :: "'f env \<Rightarrow> nat \<Rightarrow> profile \<Rightarrow> ('f, unit) io" where
  "apply_fingerprint_overrides env h profile =
     try_except_Exception
       (io_bind (call (ActivateCdpMode h ''about:blank'') (activate_cdp_mode env h ''about:blank''))
       (\<lambda>_. io_bind
          (if adblock_enabled profile then
             try_except
               (call (ExecuteCdpCmd h (SetBlockedURLs blocked_urls))
                  (execute_cdp_cmd env h (SetBlockedURLs blocked_urls)))
               (\<lambda>_. io_return ())
           else io_return ())
       (\<lambda>_. io_bind
          (if user_agent profile \<noteq> [] then
             call (ExecuteCdpCmd h (SetUserAgentOverride (user_agent profile)))
               (execute_cdp_cmd env h (SetUserAgentOverride (user_agent profile)))
           else io_return ())
       (\<lambda>_. io_bind (call_value (RandInt 1 1000) (Inr (randint env 1 1000)))
       (\<lambda>noise_seed. io_bind
          (call (ExecuteCdpCmd h
                   (AddScriptToEvaluateOnNewDocument (injection_script profile noise_seed)))
             (execute_cdp_cmd env h
                (AddScriptToEvaluateOnNewDocument (injection_script profile noise_seed))))
       (\<lambda>_. io_bind
          (if truthy_str (timezone profile) then
             call (ExecuteCdpCmd h (SetTimezoneOverride (the (timezone profile))))
               (execute_cdp_cmd env h (SetTimezoneOverride (the (timezone profile))))
           else io_return ())
       (\<lambda>_. io_bind (geolocation_override env h profile)
       (\<lambda>_. call (Reconnect h) (reconnect env h)))))))))
       (\<lambda>e. io_return ())"

section \<open>Starting a session\<close>

text \<open>The keys \<^verbatim>\<open>debug_port\<close>, \<^verbatim>\<open>websocket_link\<close> and \<^verbatim>\<open>pid\<close> of the result.\<close>

record start_result =
  debug_port :: int
  websocket_link :: json
  pid :: "nat option"

definition driver_pid :: "driver \<Rightarrow> nat option" where
  "driver_pid drv =
     (case (case service drv of None \<Rightarrow> None | Some sv \<Rightarrow> process sv) of
        Some p \<Rightarrow> Some p
      | None \<Rightarrow> (case browser_pid drv of None \<Rightarrow> None | Some bp \<Rightarrow> bp))"

text \<open>The loop over \<^verbatim>\<open>enumerate(start_pages)\<close>.\<close>

fun open_start_pages :: "'f env \<Rightarrow> nat \<Rightarrow> nat \<Rightarrow> string list \<Rightarrow> ('f, unit) io" where
  "open_start_pages env h idx [] = io_return ()"
| "open_start_pages env h idx (page_url # rest) =
     io_bind
       (if idx = 0 then call (DriverGet h page_url) (driver_get env h page_url)
        else call (ExecuteScript h (''window.open('' @ [CHR 0x27] @ page_url @ [CHR 0x27]
                                     @ '', '' @ [CHR 0x27] @ ''_blank'' @ [CHR 0x27] @ '');''))
               (execute_script env h (''window.open('' @ [CHR 0x27] @ page_url @ [CHR 0x27]
                                     @ '', '' @ [CHR 0x27] @ ''_blank'' @ [CHR 0x27] @ '');'')))
       (\<lambda>_. open_start_pages env h (Suc idx) rest)"

text \<open>
  \<^verbatim>\<open>start_profile\<close> from the creation of the data directory to the dictionary value it
  is about to store: everything between the running check and the insertion. The handler
  of its \<^verbatim>\<open>try\<close> prints and raises the exception again.
\<close>

definition launch_session ::
  "'f env \<Rightarrow> profile \<Rightarrow> string list \<Rightarrow> string list \<Rightarrow> ('f, session) io" where
  "launch_session env profile chrome_flags start_pages =
     (let user_data_dir = abspath env (''./profiles/profile_'' @ id' profile) in
      io_bind (call (MakeDirs user_data_dir) (makedirs env user_data_dir))
      (\<lambda>_. io_bind
         (case build_chrome_options profile user_data_dir chrome_flags of
            Inl e \<Rightarrow> io_raise e
          | Inr options \<Rightarrow> io_return options)
      (\<lambda>options.
         try_except_Exception
           (io_bind
              (call_value
                 (SBEnter user_data_dir (join '','' options)
                    (if language profile \<noteq> [] then hd (split_on CHR '','' (language profile))
                     else ''en-US''))
                 (sb_enter env user_data_dir (join '','' options)
                    (if language profile \<noteq> [] then hd (split_on CHR '','' (language profile))
                     else ''en-US'')))
           (\<lambda>drv. io_bind
              (call (DriverGet (handle drv) ''about:blank'')
                 (driver_get env (handle drv) ''about:blank''))
           (\<lambda>_. io_bind (get_websocket_url env (get_debug_port (parse_int env) drv))
           (\<lambda>ws_url. io_bind (apply_fingerprint_overrides env (handle drv) profile)
           (\<lambda>_. io_bind (open_start_pages env (handle drv) 0 start_pages)
           (\<lambda>_. io_return
              \<lparr>sb_context = handle drv, sb = handle drv, driver = drv,
               session.pid = driver_pid drv,
               session.debug_port = get_debug_port (parse_int env) drv,
               websocket_url = ws_url, started_at = now env\<rparr>))))))
           (\<lambda>e. io_raise e))))"

definition start_profile ::
  "'f env \<Rightarrow> profile \<Rightarrow> string list \<Rightarrow> string list \<Rightarrow> 'f manager
     \<Rightarrow> (error + start_result) \<times> 'f manager" where
  "start_profile env profile chrome_flags start_pages self =
     (if map_of (running_profiles self) (id' profile) \<noteq> None then
        (Inl (AlreadyRunning (''Profile '' @ name profile @ '' is already running'')), self)
      else
        (case launch_session env profile chrome_flags start_pages of
           (Inl e, w) \<Rightarrow> (Inl e, self\<lparr>trace := trace self @ w\<rparr>)
         | (Inr data, w) \<Rightarrow>
             (Inr \<lparr>debug_port = session.debug_port data,
                   websocket_link = websocket_url data,
                   pid = session.pid data\<rparr>,
              self\<lparr>running_profiles := AList.update (id' profile) data (running_profiles self),
                   trace := trace self @ w\<rparr>)))"

section \<open>Statistics\<close>

record 'f stats =
  running_count :: nat
  total_memory_mb :: 'f
  profiles :: "string list"

text \<open>
  One round of the loop of \<^verbatim>\<open>get_stats\<close>. \<open>memory_rss\<close> is the outcome of
  \<^verbatim>\<open>psutil.Process(pid).memory_info().rss\<close>; the bare except leaves the total as it
  was.
\<close>

definition add_memory :: "'f env \<Rightarrow> 'f \<Rightarrow> string \<times> session \<Rightarrow> 'f" where
  "add_memory env total_memory item =
     (case (case session.pid (snd item) of
              None \<Rightarrow> Inr total_memory
            | Some p \<Rightarrow>
                if p \<noteq> 0 then
                  (case memory_rss env p of
                     Inl e \<Rightarrow> Inl e
                   | Inr rss \<Rightarrow> Inr (fadd env total_memory (truediv env rss (1024 * 1024))))
                else Inr total_memory) of
        Inl e \<Rightarrow> total_memory
      | Inr t \<Rightarrow> t)"

definition get_stats :: "'f env \<Rightarrow> 'f manager \<Rightarrow> 'f stats" where
  "get_stats env self =
     \<lparr>running_count = length (running_profiles self),
      total_memory_mb =
        round_ndigits env (foldl (add_memory env) (float_of_int env 0) (running_profiles self)) 2,
      profiles = map fst (running_profiles self)\<rparr>"

section \<open>The injected canvas patch\<close>

text \<open>
  The loop of the patched \<^verbatim>\<open>getImageData\<close> in \<open>canvas_script\<close>, on the bytes of
  the image data (a \<^verbatim>\<open>Uint8ClampedArray\<close>): from index 0 in steps of 4,
  \<^verbatim>\<open>data[i] = (data[i] + (NOISE_SEED % 2)) % 256\<close>. \<open>NOISE_SEED\<close> is positive,
  where JavaScript's \<^verbatim>\<open>%\<close> is \<open>mod\<close>.
\<close>

function canvas_noise_loop :: "int \<Rightarrow> nat \<Rightarrow> 8 word list \<Rightarrow> 8 word list" where
  "canvas_noise_loop noise_seed i data =
     (if i < length data then
        canvas_noise_loop noise_seed (i + 4)
          (data[i := word_of_int ((uint (data ! i) + noise_seed mod 2) mod 256)])
      else data)"
  by pat_completeness auto
termination
  by (relation "measure (\<lambda>(noise_seed, i, data). length data - i)") auto

declare canvas_noise_loop.simps [simp del]

definition patched_getImageData :: "int \<Rightarrow> 8 word list \<Rightarrow> 8 word list" where
  "patched_getImageData noise_seed data = canvas_noise_loop noise_seed 0 data"

section \<open>Notions used to state the properties\<close>

text \<open>
  The memory readings that \<^verbatim>\<open>get_stats\<close> obtains: one per registered session whose
  process id is truthy and whose lookup returns.
\<close>

definition successful_reads :: "'f env \<Rightarrow> (string \<times> session) list \<Rightarrow> int list" where
  "successful_reads env reg =
     List.map_filter
       (\<lambda>item. case session.pid (snd item) of
                  None \<Rightarrow> None
                | Some p \<Rightarrow>
                    if p \<noteq> 0
                    then (case memory_rss env p of Inl e \<Rightarrow> None | Inr rss \<Rightarrow> Some rss)
                    else None) reg"

text \<open>The calls that end a browser: leaving the context manager, terminating the process.\<close>

fun teardown_calls :: "'f event list \<Rightarrow> 'f event list" where
  "teardown_calls [] = []"
| "teardown_calls (SBExit h # w) = SBExit h # teardown_calls w"
| "teardown_calls (ProcessTerminate p # w) = ProcessTerminate p # teardown_calls w"
| "teardown_calls (_ # w) = teardown_calls w"

text \<open>The bounds of the calls of \<^verbatim>\<open>random.randint\<close>, one pair per draw.\<close>

fun draws_of :: "'f event list \<Rightarrow> (int \<times> int) list" where
  "draws_of [] = []"
| "draws_of (RandInt a b # w) = (a, b) # draws_of w"
| "draws_of (_ # w) = draws_of w"

text \<open>
  The calls that neither draw a number nor send a DevTools command nor end a browser.
\<close>

fun is_plain :: "'f event \<Rightarrow> bool" where
  "is_plain (MakeDirs _) = True"
| "is_plain (SBEnter _ _ _) = True"
| "is_plain (DriverGet _ _) = True"
| "is_plain (ExecuteScript _ _) = True"
| "is_plain (RequestsGet _) = True"
| "is_plain _ = False"

text \<open>The sources installed with \<^verbatim>\<open>Page.addScriptToEvaluateOnNewDocument\<close>.\<close>

fun scripts_of :: "'f event list \<Rightarrow> string list" where
  "scripts_of [] = []"
| "scripts_of (ExecuteCdpCmd _ (AddScriptToEvaluateOnNewDocument src) # w) = src # scripts_of w"
| "scripts_of (_ # w) = scripts_of w"

text \<open>The geolocation commands among the calls made.\<close>

fun geolocation_cmds :: "'f event list \<Rightarrow> 'f cdp_cmd list" where
  "geolocation_cmds [] = []"
| "geolocation_cmds (ExecuteCdpCmd _ (GrantPermissions ps) # w) =
     GrantPermissions ps # geolocation_cmds w"
| "geolocation_cmds (ExecuteCdpCmd _ (SetGeolocationOverride lat lon acc) # w) =
     SetGeolocationOverride lat lon acc # geolocation_cmds w"
| "geolocation_cmds (_ # w) = geolocation_cmds w"

text \<open>
  The calls one stop makes for a registered session: the exit of the context manager,
  then, when that exit raised an \<^verbatim>\<open>Exception\<close> and the recorded process id is
  truthy, the termination of the process and, when the termination returned, the wait.
\<close>

definition kill_calls :: "'f env \<Rightarrow> session \<Rightarrow> 'f event list" where
  "kill_calls env profile_data =
     (case session.pid profile_data of
        None \<Rightarrow> []
      | Some p \<Rightarrow>
          if p \<noteq> 0 then
            ProcessTerminate p
            # (case process_terminate env p of None \<Rightarrow> [ProcessWait p 5] | Some e \<Rightarrow> [])
          else [])"

definition stop_calls :: "'f env \<Rightarrow> session \<Rightarrow> 'f event list" where
  "stop_calls env profile_data =
     SBExit (sb_context profile_data)
     # (case sb_exit env (sb_context profile_data) of
          None \<Rightarrow> []
        | Some e \<Rightarrow> if is_Exception e then kill_calls env profile_data else [])"

text \<open>
  Whether the injection for the browser \<open>h\<close> gets as far as composing the script (the
  switch to CDP mode returns, and so does the user-agent override when a user agent is
  set), and as far as the geolocation step (the script installation returns too, and so
  does the timezone override when a timezone is set).
\<close>

definition reaches_script :: "'f env \<Rightarrow> profile \<Rightarrow> nat \<Rightarrow> bool" where
  "reaches_script env profile h =
     (activate_cdp_mode env h ''about:blank'' = None
      \<and> (user_agent profile = []
         \<or> execute_cdp_cmd env h (SetUserAgentOverride (user_agent profile)) = None))"

definition reaches_geolocation :: "'f env \<Rightarrow> profile \<Rightarrow> nat \<Rightarrow> bool" where
  "reaches_geolocation env profile h =
     (reaches_script env profile h
      \<and> execute_cdp_cmd env h
            (AddScriptToEvaluateOnNewDocument (injection_script profile (randint env 1 1000)))
          = None
      \<and> (truthy_str (timezone profile) \<longrightarrow>
           execute_cdp_cmd env h (SetTimezoneOverride (the (timezone profile))) = None))"

text \<open>The manager a start, and a stop, leave behind.\<close>

abbreviation started ::
  "'f env \<Rightarrow> profile \<Rightarrow> string list \<Rightarrow> string list \<Rightarrow> 'f manager \<Rightarrow> 'f manager" where
  "started env profile chrome_flags start_pages self \<equiv>
     snd (start_profile env profile chrome_flags start_pages self)"


subsection \<open>A concrete world\<close>

text \<open>
  A world in which every call returns, with the rationals standing for the floats; the
  examples below change one outcome at a time.
\<close>

definition demo_driver :: driver where
  "demo_driver =
     \<lparr>handle = 1, service = Some \<lparr>port = Some 9515, process = Some 4242\<rparr>,
      chrome_options = None, browser_pid = None\<rparr>"

definition quiet_env :: "rat env" where
  "quiet_env =
     \<lparr>abspath = (\<lambda>p. ''/srv'' @ drop 1 p),
      makedirs = (\<lambda>_. None),
      sb_enter = (\<lambda>_ _ _. Inr demo_driver),
      driver_get = (\<lambda>_ _. None),
      execute_script = (\<lambda>_ _. None),
      requests_get_json =
        (\<lambda>_. Inr (JObj [(''webSocketDebuggerUrl'',
                           JStr ''ws://127.0.0.1:9515/devtools/browser/abc'')])),
      parse_int = (\<lambda>_. None),
      parse_float =
        (\<lambda>s. if s = ''40.7128'' then Some (407128 / 10000)
             else if s = ''-74.0060'' then Some (- 740060 / 10000) else None),
      randbelow = (\<lambda>_. 41),
      activate_cdp_mode = (\<lambda>_ _. None),
      execute_cdp_cmd = (\<lambda>_ _. None),
      reconnect = (\<lambda>_. None),
      sb_exit = (\<lambda>_. None),
      process_terminate = (\<lambda>_. None),
      process_wait = (\<lambda>_ _. None),
      memory_rss = (\<lambda>_. Inr 104857600),
      now = 0,
      float_of_int = rat_of_int,
      truediv = (\<lambda>a b. rat_of_int a / rat_of_int b),
      fadd = (+),
      round_ndigits = (\<lambda>x _. x)\<rparr>"

definition demo_profile :: profile where
  "demo_profile =
     \<lparr>id' = ''p1'', name = ''Demo'', os = ''Windows 10'', user_agent = ''UA'',
      screen_resolution = ''1920x1080'', language = ''en-US,en;q=0.9'',
      timezone = Some ''America/New_York'', geolocation = Some ''40.7128,-74.0060'',
      cpu_cores = Some 8, memory_gb = None, webgl_vendor = None, webgl_renderer = None,
      proxy_string = Some ''socks5://u:p@host:1080'', webrtc_mode = Some ''disabled'',
      canvas_mode = Some ''noise'', audio_mode = Some ''off'',
      stealth_tier = Some ''standard'', adblock_enabled = False\<rparr>"

definition demo_session :: session where
  "demo_session =
     \<lparr>sb_context = 1, sb = 1, driver = demo_driver, session.pid = Some 4242,
      session.debug_port = 9515,
      websocket_url = JStr ''ws://127.0.0.1:9515/devtools/browser/abc'', started_at = 0\<rparr>"

definition empty_manager :: "rat manager" where
  "empty_manager = \<lparr>running_profiles = [], trace = []\<rparr>"

definition demo_manager :: "rat manager" where
  "demo_manager = \<lparr>running_profiles = [(''p1'', demo_session)], trace = []\<rparr>"

text \<open>A world in which the browser neither closes nor can be killed.\<close>

definition stuck_env :: "rat env" where
  "stuck_env =
     quiet_env\<lparr>sb_exit := (\<lambda>_. Some (LibraryError ''WebDriverException'')),
               process_terminate := (\<lambda>_. Some (LibraryError ''NoSuchProcess''))\<rparr>"

text \<open>Worlds in which one call fails.\<close>

definition page_failing_env :: "rat env" where
  "page_failing_env =
     quiet_env\<lparr>execute_script := (\<lambda>_ _. Some (LibraryError ''JavascriptException''))\<rparr>"

definition blank_failing_env :: "rat env" where
  "blank_failing_env =
     quiet_env\<lparr>driver_get := (\<lambda>_ _. Some (LibraryError ''WebDriverException''))\<rparr>"

definition offline_env :: "rat env" where
  "offline_env =
     quiet_env\<lparr>requests_get_json := (\<lambda>_. Inl (LibraryError ''ConnectionError''))\<rparr>"

text \<open>A world whose metadata endpoint answers with an object that lacks the field.\<close>

definition keyless_env :: "rat env" where
  "keyless_env =
     quiet_env\<lparr>requests_get_json := (\<lambda>_. Inr (JObj [(''Browser'', JStr ''Chrome/120'')]))\<rparr>"

text \<open>A world whose generator draws another number, and two sessions in a row.\<close>

definition reseeded_env :: "rat env" where
  "reseeded_env = quiet_env\<lparr>randbelow := (\<lambda>_. 6)\<rparr>"



text \<open>A profile whose geolocation is not a pair.\<close>

definition unparsable_profile :: profile where
  "unparsable_profile = demo_profile\<lparr>geolocation := Some ''not-a-pair''\<rparr>"

text \<open>Two registered sessions, and a world in which the first does not close.\<close>

definition second_driver :: driver where
  "second_driver =
     \<lparr>handle = 2, service = Some \<lparr>port = Some 9516, process = Some 4343\<rparr>,
      chrome_options = None, browser_pid = None\<rparr>"

definition second_demo_session :: session where
  "second_demo_session =
     \<lparr>sb_context = 2, sb = 2, driver = second_driver, session.pid = Some 4343,
      session.debug_port = 9516,
      websocket_url = JStr ''ws://127.0.0.1:9516/devtools/browser/def'', started_at = 1\<rparr>"

definition two_manager :: "rat manager" where
  "two_manager =
     \<lparr>running_profiles = [(''p1'', demo_session), (''p2'', second_demo_session)], trace = []\<rparr>"

definition half_stuck_env :: "rat env" where
  "half_stuck_env =
     quiet_env\<lparr>sb_exit := (\<lambda>h. if h = 1 then Some (LibraryError ''WebDriverException'')
                              else None)\<rparr>"


definition script_refusing_env :: "rat env" where
  "script_refusing_env =
     quiet_env\<lparr>execute_cdp_cmd :=
                 (\<lambda>_ cmd. case cmd of
                             AddScriptToEvaluateOnNewDocument _ \<Rightarrow>
                               Some (LibraryError ''WebDriverException'')
                           | _ \<Rightarrow> None)\<rparr>"

section \<open>Results and calls of composed computations\<close>

lemma fst_io_bind:
  "fst (io_bind m f) = (case fst m of Inl e \<Rightarrow> Inl e | Inr a \<Rightarrow> fst (f a))"
  by (simp add: io_bind_def split: prod.splits sum.splits)

lemma snd_io_bind:
  "snd (io_bind m f) = (case fst m of Inl e \<Rightarrow> snd m | Inr a \<Rightarrow> snd m @ snd (f a))"
  by (simp add: io_bind_def split: prod.splits sum.splits)

lemma fst_try_except:
  "fst (try_except m h) = (case fst m of Inl e \<Rightarrow> fst (h e) | Inr a \<Rightarrow> Inr a)"
  by (simp add: try_except_def split: prod.splits sum.splits)

lemma snd_try_except:
  "snd (try_except m h) = (case fst m of Inl e \<Rightarrow> snd m @ snd (h e) | Inr a \<Rightarrow> snd m)"
  by (simp add: try_except_def split: prod.splits sum.splits)

lemma fst_try_except_Exception:
  "fst (try_except_Exception m h)
     = (case fst m of Inl e \<Rightarrow> if is_Exception e then fst (h e) else Inl e | Inr a \<Rightarrow> Inr a)"
  by (simp add: try_except_Exception_def split: prod.splits sum.splits)

lemma snd_try_except_Exception:
  "snd (try_except_Exception m h)
     = (case fst m of Inl e \<Rightarrow> if is_Exception e then snd m @ snd (h e) else snd m
        | Inr a \<Rightarrow> snd m)"
  by (simp add: try_except_Exception_def split: prod.splits sum.splits)

lemma io_basic:
  "fst (io_return x) = Inr x" "snd (io_return x) = []"
  "fst (io_raise e) = Inl e" "snd (io_raise e) = []"
  "fst (call ev outcome) = (case outcome of None \<Rightarrow> Inr () | Some e \<Rightarrow> Inl e)"
  "snd (call ev outcome) = [ev]"
  "fst (call_value ev res) = res" "snd (call_value ev res) = [ev]"
  by (simp_all add: io_return_def io_raise_def call_def call_value_def)

lemmas io_simps =
  fst_io_bind snd_io_bind fst_try_except snd_try_except
  fst_try_except_Exception snd_try_except_Exception io_basic

lemma reraise: "try_except_Exception m io_raise = m"
  by (cases m) (auto simp add: try_except_Exception_def io_raise_def split: sum.splits)

lemma snd_swallow:
  "snd (try_except_Exception m (\<lambda>e. io_return x)) = snd m"
  "snd (try_except m (\<lambda>e. io_return x)) = snd m"
  by (simp_all add: io_simps split: sum.splits)

lemma fst_swallow:
  "fst (try_except m (\<lambda>e. io_return x)) = (case fst m of Inl e \<Rightarrow> Inr x | Inr a \<Rightarrow> Inr a)"
  by (simp_all add: io_simps split: sum.splits)

lemma scripts_of_append: "scripts_of (u @ w) = scripts_of u @ scripts_of w"
  by (induction u rule: scripts_of.induct) simp_all

lemma teardown_calls_append: "teardown_calls (u @ w) = teardown_calls u @ teardown_calls w"
  by (induction u rule: teardown_calls.induct) simp_all

lemma draws_of_append: "draws_of (u @ w) = draws_of u @ draws_of w"
  by (induction u rule: draws_of.induct) simp_all

lemma geolocation_cmds_append: "geolocation_cmds (u @ w) = geolocation_cmds u @ geolocation_cmds w"
  by (induction u rule: geolocation_cmds.induct) simp_all

lemma plain_projections:
  assumes "\<forall>ev \<in> set w. is_plain ev"
  shows "teardown_calls w = []" and "draws_of w = []"
    and "scripts_of w = []" and "geolocation_cmds w = []"
proof -
  from assms show "teardown_calls w = []"
    by (induction w rule: teardown_calls.induct) simp_all
  from assms show "draws_of w = []"
    by (induction w rule: draws_of.induct) simp_all
  from assms show "scripts_of w = []"
    by (induction w rule: scripts_of.induct) simp_all
  from assms show "geolocation_cmds w = []"
    by (induction w rule: geolocation_cmds.induct) simp_all
qed

lemmas run_defs =
  start_profile_def launch_session_def apply_fingerprint_overrides_def get_websocket_url_def
  geolocation_override_def parse_lat_lon_def build_chrome_options_def unpack_pair_def
  get_debug_port_def driver_pid_def truthy_str_def randint_def
  io_bind_def io_return_def io_raise_def call_def call_value_def try_except_def
  try_except_Exception_def Let_def
  quiet_env_def demo_profile_def demo_driver_def empty_manager_def

lemma str_int_9515: "str_int 9515 = ''9515''"
  by (simp add: str_int_def str_nat.simps)

section \<open>Stopping: the entry always goes\<close>

lemma stop_profile_registry:
  "running_profiles (snd (stop_profile env profile_id self))
     = AList.delete profile_id (running_profiles self)"
proof (cases "map_of (running_profiles self) profile_id")
  case None
  then have "profile_id \<notin> fst ` set (running_profiles self)"
    by (simp add: map_of_eq_None_iff)
  with None show ?thesis
    by (simp add: stop_profile_def)
next
  case (Some profile_data)
  then show ?thesis
    by (simp add: stop_profile_def split: prod.splits)
qed

lemma force_kill_returns: "fst (force_kill env profile_data) = Inr ()"
  by (simp add: force_kill_def try_except_def io_return_def io_bind_def call_def
        split: option.splits prod.splits sum.splits)

text \<open>
  C3. For a profile id in the registry, the id is absent from the registry once
  \<^verbatim>\<open>stop_profile\<close> is over, whatever the graceful exit and the forced kill did; and
  \<^verbatim>\<open>stop_profile\<close> returns normally whenever the graceful exit returned or raised an
  \<^verbatim>\<open>Exception\<close> (the forced kill may then raise as well: it is swallowed).
\<close>

theorem stop_profile_removes_entry:
  assumes "map_of (running_profiles self) profile_id = Some profile_data"
  shows "\<not> is_running (snd (stop_profile env profile_id self)) profile_id
         \<and> ((\<forall>e. sb_exit env (sb_context profile_data) = Some e \<longrightarrow> is_Exception e)
              \<longrightarrow> fst (stop_profile env profile_id self) = Inr ())"
proof
  show "\<not> is_running (snd (stop_profile env profile_id self)) profile_id"
    by (simp add: is_running_def stop_profile_registry delete_conv')
next
  show "(\<forall>e. sb_exit env (sb_context profile_data) = Some e \<longrightarrow> is_Exception e)
          \<longrightarrow> fst (stop_profile env profile_id self) = Inr ()"
    using assms force_kill_returns [of env profile_data]
    by (cases "sb_exit env (sb_context profile_data)")
       (auto simp add: stop_profile_def try_except_Exception_def call_def
          split: prod.splits sum.splits)
qed

theorem stop_profile_removes_entry_witness:
  "map_of (running_profiles demo_manager) ''p1'' = Some demo_session
   \<and> sb_exit stuck_env (sb_context demo_session) = Some (LibraryError ''WebDriverException'')
   \<and> process_terminate stuck_env 4242 = Some (LibraryError ''NoSuchProcess'')
   \<and> is_Exception (LibraryError ''WebDriverException'')
   \<and> \<not> is_running (snd (stop_profile stuck_env ''p1'' demo_manager)) ''p1''
   \<and> fst (stop_profile stuck_env ''p1'' demo_manager) = Inr ()"
proof -
  have present: "map_of (running_profiles demo_manager) ''p1'' = Some demo_session"
    by (simp add: demo_manager_def)
  have raised:
    "sb_exit stuck_env (sb_context demo_session) = Some (LibraryError ''WebDriverException'')"
    "process_terminate stuck_env 4242 = Some (LibraryError ''NoSuchProcess'')"
    by (simp_all add: stuck_env_def)
  show ?thesis
    using present raised stop_profile_removes_entry [OF present, of stuck_env]
    by simp
qed


section \<open>Closing all sessions\<close>

lemma close_each_keys:
  "map fst (running_profiles (close_each env ks self))
     = filter (\<lambda>k. k \<notin> set ks) (map fst (running_profiles self))"
proof (induction ks arbitrary: self)
  case Nil
  show ?case by simp
next
  case (Cons k ks)
  show ?case
    by (auto simp add: Cons.IH stop_profile_registry delete_keys removeAll_filter_not_eq
          intro!: filter_cong)
qed

lemma snd_force_kill: "snd (force_kill env profile_data) = kill_calls env profile_data"
  by (simp add: force_kill_def kill_calls_def snd_swallow snd_io_bind io_basic
        split: option.splits)

lemma stop_profile_calls:
  assumes "map_of (running_profiles self) profile_id = Some profile_data"
  shows "trace (snd (stop_profile env profile_id self))
           = trace self @ stop_calls env profile_data"
  using assms
  by (auto simp add: stop_profile_def stop_calls_def try_except_Exception_def call_def
        snd_force_kill [symmetric] split: prod.splits option.splits)

lemma close_each_calls:
  assumes "distinct (map fst (running_profiles self))"
  shows "trace (close_each env (map fst (running_profiles self)) self)
           = trace self @ concat (map (\<lambda>item. stop_calls env (snd item)) (running_profiles self))"
  using assms
proof (induction "running_profiles self" arbitrary: self)
  case Nil
  then show ?case by simp
next
  case (Cons item reg)
  obtain k d where item: "item = (k, d)" by (cases item)
  let ?next = "snd (stop_profile env k self)"
  have reg: "running_profiles self = (k, d) # reg"
    using Cons.hyps(2) item by simp
  then have notin: "k \<notin> fst ` set reg" and dist: "distinct (map fst reg)"
    using Cons.prems by simp_all
  have found: "map_of (running_profiles self) k = Some d"
    using reg by simp
  have next_reg: "running_profiles ?next = reg"
    using reg notin by (simp add: stop_profile_registry)
  have next_trace: "trace ?next = trace self @ stop_calls env d"
    using stop_profile_calls [OF found] .
  have "trace (close_each env (map fst (running_profiles ?next)) ?next)
          = trace ?next @ concat (map (\<lambda>item. stop_calls env (snd item)) (running_profiles ?next))"
    using Cons.hyps(1) [of ?next] next_reg dist by simp
  then show ?case
    using reg next_reg next_trace by simp
qed

lemma close_each_foldl:
  "close_each env ks self = foldl (\<lambda>s profile_id. snd (stop_profile env profile_id s)) self ks"
  by (induction ks arbitrary: self) simp_all

text \<open>
  C7. \<^verbatim>\<open>close_all\<close> takes the keys of the registry and stops each in turn,
  whatever the stops raise: it is the fold of \<^verbatim>\<open>stop_profile\<close> over the snapshot of
  the keys. It leaves the registry empty, and the calls it makes are, session by session
  in registry order, the calls of one stop: each session's context manager is left, and
  the forced kill follows where that exit raised.
\<close>

theorem close_all_stops_each_and_empties_registry:
  "running_profiles (close_all env self) = []
   \<and> close_all env self
       = foldl (\<lambda>s profile_id. snd (stop_profile env profile_id s)) self
           (map fst (running_profiles self))
   \<and> (distinct (map fst (running_profiles self)) \<longrightarrow>
        trace (close_all env self)
          = trace self
            @ concat (map (\<lambda>item. stop_calls env (snd item)) (running_profiles self)))"
proof -
  have "map fst (running_profiles (close_all env self)) = []"
    unfolding close_all_def close_each_keys by simp
  then have "running_profiles (close_all env self) = []" by simp
  then show ?thesis
    by (simp add: close_all_def close_each_foldl [symmetric] close_each_calls)
qed

theorem close_all_stops_each_and_empties_registry_witness:
  "distinct (map fst (running_profiles two_manager))
   \<and> running_profiles (close_all half_stuck_env two_manager) = []
   \<and> trace (close_all half_stuck_env two_manager)
       = [SBExit 1, ProcessTerminate 4242, ProcessWait 4242 5, SBExit 2]"
proof -
  have keys: "distinct (map fst (running_profiles two_manager))"
    by (simp add: two_manager_def)
  have calls:
    "trace two_manager
       @ concat (map (\<lambda>item. stop_calls half_stuck_env (snd item)) (running_profiles two_manager))
     = [SBExit 1, ProcessTerminate 4242, ProcessWait 4242 5, SBExit 2]"
    by (simp add: two_manager_def stop_calls_def kill_calls_def half_stuck_env_def
          quiet_env_def demo_session_def second_demo_session_def)
  note all = close_all_stops_each_and_empties_registry [of half_stuck_env two_manager]
  have empty: "running_profiles (close_all half_stuck_env two_manager) = []"
    using all by (rule conjunct1)
  have "trace (close_all half_stuck_env two_manager)
          = trace two_manager
            @ concat (map (\<lambda>item. stop_calls half_stuck_env (snd item))
                        (running_profiles two_manager))"
    using all keys by blast
  with keys calls empty show ?thesis
    by simp
qed

section \<open>Statistics\<close>

lemma foldl_add_memory:
  "foldl (add_memory env) acc reg
     = foldl (fadd env) acc
         (map (\<lambda>rss. truediv env rss (1024 * 1024)) (successful_reads env reg))"
proof (induction reg arbitrary: acc)
  case Nil
  show ?case by (simp add: successful_reads_def map_filter_simps)
next
  case (Cons item reg)
  show ?case
    using Cons.IH
    by (simp add: successful_reads_def map_filter_simps add_memory_def
          split: option.splits sum.splits)
qed

lemma length_successful_reads:
  "length (successful_reads env reg)
     = length reg - length (filter (\<lambda>item. successful_reads env [item] = []) reg)"
proof (induction reg)
  case Nil
  show ?case by (simp add: successful_reads_def map_filter_simps)
next
  case (Cons item reg)
  have "length (filter (\<lambda>item. successful_reads env [item] = []) reg) \<le> length reg"
    by simp
  then show ?case
    using Cons.IH
    by (auto simp add: successful_reads_def map_filter_simps Suc_diff_le
          split: option.splits sum.splits)
qed

text \<open>
  C6. \<^verbatim>\<open>get_stats\<close> has no raising path. With N registered sessions it reports
  \<open>running_count = N\<close> and the N registered ids in registry order, and its memory total
  is the rounded sum, in registry order, of the readings that returned: the N sessions
  minus the k whose reading gave nothing, each of which leaves the total as it was.
\<close>

theorem get_stats_counts_and_sums:
  "running_count (get_stats env self) = length (running_profiles self)
   \<and> profiles (get_stats env self) = map fst (running_profiles self)
   \<and> total_memory_mb (get_stats env self)
       = round_ndigits env
           (foldl (fadd env) (float_of_int env 0)
              (map (\<lambda>rss. truediv env rss (1024 * 1024))
                 (successful_reads env (running_profiles self)))) 2
   \<and> length (successful_reads env (running_profiles self))
       = length (running_profiles self)
         - length (filter (\<lambda>item. successful_reads env [item] = []) (running_profiles self))"
  using length_successful_reads [of env "running_profiles self"]
  by (simp add: get_stats_def foldl_add_memory)

section \<open>The canvas patch on even seeds\<close>

lemma canvas_noise_loop_even:
  "even noise_seed \<Longrightarrow> canvas_noise_loop noise_seed i data = data"
proof (induction noise_seed i data rule: canvas_noise_loop.induct)
  case (1 noise_seed i data)
  show ?case
  proof (cases "i < length data")
    case True
    have "noise_seed mod 2 = 0"
      using "1.prems" by presburger
    moreover have "uint (data ! i) mod 256 = uint (data ! i)"
      using uint_lt2p [of "data ! i"] by simp
    ultimately have same:
      "data[i := word_of_int ((uint (data ! i) + noise_seed mod 2) mod 256)] = data"
      by simp
    show ?thesis
      using True "1.IH" [OF True "1.prems"] same
      by (subst canvas_noise_loop.simps) simp
  next
    case False
    then show ?thesis
      by (subst canvas_noise_loop.simps) simp
  qed
qed

lemma even_seeds_in_range: "card {s \<in> {1..1000::int}. even s} = 500"
proof -
  have "{s \<in> {1..1000::int}. even s} = (\<lambda>k. 2 * k) ` {1..500}"
    by (auto elim!: evenE)
  moreover have "card ((\<lambda>k. 2 * k) ` {1..500::int}) = card {1..500::int}"
    by (rule card_image) (simp add: inj_on_def)
  ultimately show ?thesis by simp
qed

text \<open>
  C10. For an even noise seed the patched pixel readback adds \<open>seed mod 2 = 0\<close> to
  every fourth byte, reduced modulo 256, and so returns the image data byte for byte as
  it was; 500 of the 1000 seeds from 1 to 1000 are even.
\<close>

theorem canvas_noise_identity_on_even_seed:
  "(even noise_seed \<longrightarrow> patched_getImageData noise_seed data = data)
   \<and> card {s \<in> {1..1000::int}. even s} = 500"
  using even_seeds_in_range
  by (simp add: patched_getImageData_def canvas_noise_loop_even)

theorem canvas_noise_identity_on_even_seed_witness:
  "even (42::int)
   \<and> patched_getImageData 42 [1, 2, 3, 4, 255, 6, 7, 8, 9] = [1, 2, 3, 4, 255, 6, 7, 8, 9]"
  using canvas_noise_identity_on_even_seed [of 42 "[1, 2, 3, 4, 255, 6, 7, 8, 9]"]
  by simp

section \<open>Launch arguments and the screen resolution\<close>

text \<open>
  C5, amended. An empty resolution leaves the window-size flag out: the arguments are the
  proxy flag, the WebRTC flag and the extra flags alone. A resolution that splits on
  \<open>x\<close> into exactly a width and a height puts \<^verbatim>\<open>--window-size=width,height\<close> in
  front of them. A non-empty resolution that splits into any other number of parts makes
  \<^verbatim>\<open>_build_chrome_options\<close> raise \<^verbatim>\<open>ValueError\<close>, and a start of such a
  profile, not registered and with its data directory created, fails with that error
  after \<^verbatim>\<open>makedirs\<close> and before any browser is launched, the registry unchanged.
\<close>

theorem build_chrome_options_window_size:
  "(screen_resolution profile = [] \<longrightarrow>
      build_chrome_options profile user_data_dir extra_flags
        = Inr ((if truthy_str (proxy_string profile)
                then [''--proxy-server='' @ the (proxy_string profile)] else [])
               @ (if webrtc_mode profile = Some ''disabled'' then [''--disable-webrtc''] else [])
               @ extra_flags))
   \<and> (\<forall>width height. split_on CHR ''x'' (screen_resolution profile) = [width, height] \<longrightarrow>
        build_chrome_options profile user_data_dir extra_flags
          = Inr ((''--window-size='' @ width @ '','' @ height)
                 # (if truthy_str (proxy_string profile)
                    then [''--proxy-server='' @ the (proxy_string profile)] else [])
                 @ (if webrtc_mode profile = Some ''disabled'' then [''--disable-webrtc''] else [])
                 @ extra_flags))
   \<and> (screen_resolution profile \<noteq> []
        \<and> length (split_on CHR ''x'' (screen_resolution profile)) \<noteq> 2 \<longrightarrow>
        (\<exists>msg. build_chrome_options profile user_data_dir extra_flags = Inl (ValueError msg)
           \<and> (map_of (running_profiles self) (id' profile) = None
                \<and> makedirs env (abspath env (''./profiles/profile_'' @ id' profile)) = None \<longrightarrow>
              start_profile env profile extra_flags start_pages self
                = (Inl (ValueError msg),
                   self\<lparr>trace := trace self
                            @ [MakeDirs (abspath env (''./profiles/profile_'' @ id' profile))]\<rparr>))))"
proof (intro conjI allI impI)
  assume "screen_resolution profile = []"
  then show "build_chrome_options profile user_data_dir extra_flags
        = Inr ((if truthy_str (proxy_string profile)
                then [''--proxy-server='' @ the (proxy_string profile)] else [])
               @ (if webrtc_mode profile = Some ''disabled'' then [''--disable-webrtc''] else [])
               @ extra_flags)"
    by (simp add: build_chrome_options_def)
next
  fix width height
  assume two: "split_on CHR ''x'' (screen_resolution profile) = [width, height]"
  then have "screen_resolution profile \<noteq> []"
    by auto
  with two show "build_chrome_options profile user_data_dir extra_flags
          = Inr ((''--window-size='' @ width @ '','' @ height)
                 # (if truthy_str (proxy_string profile)
                    then [''--proxy-server='' @ the (proxy_string profile)] else [])
                 @ (if webrtc_mode profile = Some ''disabled'' then [''--disable-webrtc''] else [])
                 @ extra_flags)"
    by (simp add: build_chrome_options_def unpack_pair_def)
next
  assume bad: "screen_resolution profile \<noteq> []
        \<and> length (split_on CHR ''x'' (screen_resolution profile)) \<noteq> 2"
  then have "\<exists>msg. unpack_pair (split_on CHR ''x'' (screen_resolution profile))
                 = Inl (ValueError msg)"
    by (auto simp add: unpack_pair_def split: list.splits)
  then obtain msg where
    msg: "unpack_pair (split_on CHR ''x'' (screen_resolution profile)) = Inl (ValueError msg)"
    by blast
  with bad have raised: "build_chrome_options profile d extra_flags = Inl (ValueError msg)" for d
    by (simp add: build_chrome_options_def)
  have "start_profile env profile extra_flags start_pages self
                = (Inl (ValueError msg),
                   self\<lparr>trace := trace self
                            @ [MakeDirs (abspath env (''./profiles/profile_'' @ id' profile))]\<rparr>)"
    if "map_of (running_profiles self) (id' profile) = None
          \<and> makedirs env (abspath env (''./profiles/profile_'' @ id' profile)) = None"
    using that raised
    by (simp add: start_profile_def launch_session_def Let_def io_bind_def call_def io_raise_def)
  with raised show "\<exists>msg. build_chrome_options profile user_data_dir extra_flags = Inl (ValueError msg)
           \<and> (map_of (running_profiles self) (id' profile) = None
                \<and> makedirs env (abspath env (''./profiles/profile_'' @ id' profile)) = None \<longrightarrow>
              start_profile env profile extra_flags start_pages self
                = (Inl (ValueError msg),
                   self\<lparr>trace := trace self
                            @ [MakeDirs (abspath env (''./profiles/profile_'' @ id' profile))]\<rparr>))"
    by blast
qed

theorem build_chrome_options_window_size_witness:
  "screen_resolution (demo_profile\<lparr>screen_resolution := []\<rparr>) = []
   \<and> build_chrome_options (demo_profile\<lparr>screen_resolution := []\<rparr>)
         ''/srv/profiles/profile_p1'' [''--incognito'']
       = Inr [''--proxy-server=socks5://u:p@host:1080'', ''--disable-webrtc'', ''--incognito'']
   \<and> split_on CHR ''x'' (screen_resolution demo_profile) = [''1920'', ''1080'']
   \<and> build_chrome_options demo_profile ''/srv/profiles/profile_p1'' [''--incognito'']
       = Inr [''--window-size=1920,1080'', ''--proxy-server=socks5://u:p@host:1080'',
              ''--disable-webrtc'', ''--incognito'']
   \<and> split_on CHR ''x'' (screen_resolution (demo_profile\<lparr>screen_resolution := ''1x2x3''\<rparr>))
       = [''1'', ''2'', ''3'']
   \<and> build_chrome_options (demo_profile\<lparr>screen_resolution := ''1x2x3''\<rparr>)
         ''/srv/profiles/profile_p1'' [''--incognito'']
       = Inl (ValueError ''too many values to unpack (expected 2)'')
   \<and> start_profile quiet_env (demo_profile\<lparr>screen_resolution := ''1x2x3''\<rparr>)
         [''--incognito''] [] empty_manager
       = (Inl (ValueError ''too many values to unpack (expected 2)''),
          \<lparr>running_profiles = [], trace = [MakeDirs ''/srv/profiles/profile_p1'']\<rparr>)"
proof -
  let ?bad = "demo_profile\<lparr>screen_resolution := ''1x2x3''\<rparr>"
  have none: "screen_resolution (demo_profile\<lparr>screen_resolution := []\<rparr>) = []"
    by simp
  have two: "split_on CHR ''x'' (screen_resolution demo_profile) = [''1920'', ''1080'']"
    by (simp add: demo_profile_def)
  have three: "split_on CHR ''x'' (screen_resolution ?bad) = [''1'', ''2'', ''3'']"
    by simp
  have facts: "truthy_str (proxy_string demo_profile)"
    "the (proxy_string demo_profile) = ''socks5://u:p@host:1080''"
    "webrtc_mode demo_profile = Some ''disabled''"
    by (simp_all add: demo_profile_def truthy_str_def)
  have omitted: "build_chrome_options (demo_profile\<lparr>screen_resolution := []\<rparr>)
         ''/srv/profiles/profile_p1'' [''--incognito'']
       = Inr [''--proxy-server=socks5://u:p@host:1080'', ''--disable-webrtc'', ''--incognito'']"
    using none facts
      build_chrome_options_window_size
        [of "demo_profile\<lparr>screen_resolution := []\<rparr>" "''/srv/profiles/profile_p1''"
            "[''--incognito'']"]
    by simp
  have carried: "build_chrome_options demo_profile ''/srv/profiles/profile_p1'' [''--incognito'']
       = Inr [''--window-size=1920,1080'', ''--proxy-server=socks5://u:p@host:1080'',
              ''--disable-webrtc'', ''--incognito'']"
    using two facts
      build_chrome_options_window_size
        [of demo_profile "''/srv/profiles/profile_p1''" "[''--incognito'']"]
    by simp
  have raised: "build_chrome_options ?bad ''/srv/profiles/profile_p1'' [''--incognito'']
       = Inl (ValueError ''too many values to unpack (expected 2)'')"
    by (simp add: build_chrome_options_def demo_profile_def unpack_pair_def)
  have absent: "map_of (running_profiles empty_manager) (id' ?bad) = None"
    "makedirs quiet_env (abspath quiet_env (''./profiles/profile_'' @ id' ?bad)) = None"
    "abspath quiet_env (''./profiles/profile_'' @ id' ?bad) = ''/srv/profiles/profile_p1''"
    by (simp_all add: empty_manager_def quiet_env_def demo_profile_def)
  have "\<exists>msg. build_chrome_options ?bad ''/srv/profiles/profile_p1'' [''--incognito'']
                 = Inl (ValueError msg)
           \<and> start_profile quiet_env ?bad [''--incognito''] [] empty_manager
                = (Inl (ValueError msg),
                   empty_manager\<lparr>trace := trace empty_manager
                            @ [MakeDirs (abspath quiet_env (''./profiles/profile_'' @ id' ?bad))]\<rparr>)"
    using three absent(1,2)
      build_chrome_options_window_size
        [of ?bad "''/srv/profiles/profile_p1''" "[''--incognito'']" empty_manager quiet_env "[]"]
    by auto
  then have failed: "start_profile quiet_env ?bad [''--incognito''] [] empty_manager
       = (Inl (ValueError ''too many values to unpack (expected 2)''),
          \<lparr>running_profiles = [], trace = [MakeDirs ''/srv/profiles/profile_p1'']\<rparr>)"
    using raised absent(3) by (auto simp add: empty_manager_def)
  show ?thesis
    using none omitted two carried three raised failed by blast
qed

theorem build_chrome_options_malformed_counterexample:
  "split_on CHR ''x'' ''1920'' = [''1920'']
   \<and> build_chrome_options (demo_profile\<lparr>screen_resolution := ''1920''\<rparr>) ''/srv/profiles/profile_p1'' []
       = Inl (ValueError ''not enough values to unpack (expected 2, got 1)'')
   \<and> start_profile quiet_env (demo_profile\<lparr>screen_resolution := ''1920''\<rparr>) [] [] empty_manager
       = (Inl (ValueError ''not enough values to unpack (expected 2, got 1)''),
          \<lparr>running_profiles = [], trace = [MakeDirs ''/srv/profiles/profile_p1'']\<rparr>)"
  by (simp add: start_profile_def launch_session_def empty_manager_def quiet_env_def
       build_chrome_options_def demo_profile_def unpack_pair_def str_nat.simps
       io_bind_def call_def io_raise_def io_return_def)

section \<open>The calls of a start\<close>

text \<open>
  A split never gives the empty list, and gives a second part when the separator occurs:
  the \<open>hd\<close> in \<open>launch_session\<close> and the index 1 in \<open>get_debug_port\<close> read
  inside the list.
\<close>

lemma length_split_on:
  "length (split_on sep s) = Suc (length (filter (\<lambda>c. c = sep) s))"
  by (induction s) (auto split: list.splits)

lemma split_on_second_part: "sep \<in> set s \<Longrightarrow> 1 < length (split_on sep s)"
  by (auto simp add: length_split_on filter_empty_conv)

lemma fst_get_websocket_url:
  "fst (get_websocket_url env n)
     = Inr (case requests_get_json env (''http://127.0.0.1:'' @ str_int n @ ''/json/version'') of
              Inr (JObj kv) \<Rightarrow>
                (case map_of kv ''webSocketDebuggerUrl'' of None \<Rightarrow> JStr [] | Some v \<Rightarrow> v)
            | _ \<Rightarrow> JStr (''ws://127.0.0.1:'' @ str_int n @ ''/devtools/browser''))"
  by (simp add: get_websocket_url_def io_simps split: sum.splits json.splits)

lemma snd_get_websocket_url:
  "snd (get_websocket_url env n)
     = [RequestsGet (''http://127.0.0.1:'' @ str_int n @ ''/json/version'')]"
  by (simp add: get_websocket_url_def io_simps split: sum.splits json.splits)

lemma open_start_pages_plain:
  "\<forall>ev \<in> set (snd (open_start_pages env h idx pages)). is_plain ev"
  by (induction pages arbitrary: idx) (auto simp add: io_simps split: sum.splits option.splits)

lemma launch_session_success:
  assumes "fst (launch_session env profile chrome_flags start_pages) = Inr data"
  shows "fst (get_websocket_url env (session.debug_port data)) = Inr (websocket_url data)"
  using assms
  by (auto simp add: launch_session_def Let_def reraise io_simps
        split: sum.splits option.splits if_splits)

lemma launch_session_events:
  "\<exists>pre mid post.
      snd (launch_session env profile chrome_flags start_pages) = pre @ mid @ post
      \<and> (\<forall>ev \<in> set pre. is_plain ev) \<and> (\<forall>ev \<in> set post. is_plain ev)
      \<and> (mid = [] \<or> (\<exists>h. mid = snd (apply_fingerprint_overrides env h profile)))
      \<and> (\<forall>data. fst (launch_session env profile chrome_flags start_pages) = Inr data \<longrightarrow>
            mid = snd (apply_fingerprint_overrides env (sb_context data) profile))"
proof -
  define d where "d = abspath env (''./profiles/profile_'' @ id' profile)"
  let ?L = "launch_session env profile chrome_flags start_pages"
  have trivial_case:
    "\<exists>pre mid post.
      snd ?L = pre @ mid @ post
      \<and> (\<forall>ev \<in> set pre. is_plain ev) \<and> (\<forall>ev \<in> set post. is_plain ev)
      \<and> (mid = [] \<or> (\<exists>h. mid = snd (apply_fingerprint_overrides env h profile)))
      \<and> (\<forall>data. fst ?L = Inr data \<longrightarrow>
            mid = snd (apply_fingerprint_overrides env (sb_context data) profile))"
    if "\<forall>ev \<in> set (snd ?L). is_plain ev" and "\<forall>data. fst ?L \<noteq> Inr data"
    using that
    by (intro exI [of _ "snd ?L"] exI [of _ "[]"]) simp
  show ?thesis
  proof (cases "makedirs env d")
    case (Some e)
    then show ?thesis
      by (intro trivial_case) (simp_all add: launch_session_def Let_def reraise io_simps d_def)
  next
    case None
    note mk = this
    show ?thesis
    proof (cases "build_chrome_options profile d chrome_flags")
      case (Inl e)
      with mk show ?thesis
        by (intro trivial_case) (simp_all add: launch_session_def Let_def reraise io_simps d_def)
    next
      case (Inr options)
      note bo = this
      define loc where "loc = (if language profile \<noteq> [] then hd (split_on CHR '','' (language profile))
                     else ''en-US'')"
      show ?thesis
      proof (cases "sb_enter env d (join '','' options) loc")
        case (Inl e)
        with mk bo show ?thesis
          by (intro trivial_case)
             (simp_all add: launch_session_def Let_def reraise io_simps d_def loc_def)
      next
        case (Inr drv)
        note en = this
        show ?thesis
        proof (cases "driver_get env (handle drv) ''about:blank''")
          case (Some e)
          with mk bo en show ?thesis
            by (intro trivial_case)
               (simp_all add: launch_session_def Let_def reraise io_simps d_def loc_def)
        next
          case None
          let ?A = "apply_fingerprint_overrides env (handle drv) profile"
          let ?pre = "[MakeDirs d, SBEnter d (join '','' options) loc,
                       DriverGet (handle drv) ''about:blank'',
                       RequestsGet (''http://127.0.0.1:''
                          @ str_int (get_debug_port (parse_int env) drv) @ ''/json/version'')]"
          let ?post = "case fst ?A of Inl e \<Rightarrow> []
                       | Inr u \<Rightarrow> snd (open_start_pages env (handle drv) 0 start_pages)"
          have shape: "snd ?L = ?pre @ snd ?A @ ?post"
            using mk bo en None
            by (simp add: launch_session_def Let_def reraise io_simps d_def loc_def
                  fst_get_websocket_url snd_get_websocket_url split: sum.splits)
          have ctx: "sb_context data = handle drv" if "fst ?L = Inr data" for data
            using that mk bo en None
            by (auto simp add: launch_session_def Let_def reraise io_simps d_def loc_def
                  fst_get_websocket_url split: sum.splits)
          have post: "\<forall>ev \<in> set ?post. is_plain ev"
            using open_start_pages_plain [of env "handle drv" 0 start_pages]
            by (simp split: sum.splits)
          show ?thesis
            using shape ctx post
            by (intro exI [of _ ?pre] exI [of _ "snd ?A"] exI [of _ ?post]) auto
        qed
      qed
    qed
  qed
qed

lemma fst_geolocation_override: "fst (geolocation_override env h profile) = Inr ()"
  by (simp add: geolocation_override_def io_simps split: sum.splits option.splits prod.splits)

lemma snd_apply_fingerprint_overrides:
  "snd (apply_fingerprint_overrides env h profile) =
     ActivateCdpMode h ''about:blank'' #
     (case activate_cdp_mode env h ''about:blank'' of
        Some e \<Rightarrow> []
      | None \<Rightarrow>
          (if adblock_enabled profile then [ExecuteCdpCmd h (SetBlockedURLs blocked_urls)] else [])
          @ (if user_agent profile \<noteq> []
             then [ExecuteCdpCmd h (SetUserAgentOverride (user_agent profile))] else [])
          @ (if user_agent profile \<noteq> []
                \<and> execute_cdp_cmd env h (SetUserAgentOverride (user_agent profile)) \<noteq> None
             then []
             else [RandInt 1 1000,
                   ExecuteCdpCmd h (AddScriptToEvaluateOnNewDocument
                                      (injection_script profile (randint env 1 1000)))]
                  @ (case execute_cdp_cmd env h
                            (AddScriptToEvaluateOnNewDocument
                               (injection_script profile (randint env 1 1000))) of
                       Some e \<Rightarrow> []
                     | None \<Rightarrow>
                         (if truthy_str (timezone profile)
                          then [ExecuteCdpCmd h (SetTimezoneOverride (the (timezone profile)))]
                          else [])
                         @ (if truthy_str (timezone profile)
                               \<and> execute_cdp_cmd env h
                                     (SetTimezoneOverride (the (timezone profile))) \<noteq> None
                            then []
                            else snd (geolocation_override env h profile) @ [Reconnect h]))))"
  unfolding apply_fingerprint_overrides_def snd_swallow
  by (simp add: fst_io_bind snd_io_bind io_basic fst_swallow snd_swallow
        fst_geolocation_override split: option.splits)

lemma snd_geolocation_override:
  "snd (geolocation_override env h profile)
     = (if truthy_str (geolocation profile) \<and> CHR '','' \<in> set (the (geolocation profile)) then
          (case parse_lat_lon env (the (geolocation profile)) of
             Inl e \<Rightarrow> []
           | Inr (lat, lon) \<Rightarrow>
               ExecuteCdpCmd h (GrantPermissions [''geolocation''])
               # (case execute_cdp_cmd env h (GrantPermissions [''geolocation'']) of
                    None \<Rightarrow> [ExecuteCdpCmd h (SetGeolocationOverride lat lon 100)]
                  | Some e \<Rightarrow> []))
        else [])"
proof (cases "parse_lat_lon env (the (geolocation profile))")
  case (Inl e)
  then show ?thesis
    by (simp add: geolocation_override_def io_simps)
next
  case (Inr p)
  obtain lat lon where p: "p = (lat, lon)" by (cases p)
  show ?thesis
    unfolding geolocation_override_def Inr p
    by (simp add: snd_swallow snd_io_bind fst_io_bind io_basic split: option.splits)
qed

lemma geolocation_override_projections:
  "teardown_calls (snd (geolocation_override env h profile)) = []"
  "draws_of (snd (geolocation_override env h profile)) = []"
  "scripts_of (snd (geolocation_override env h profile)) = []"
  by (simp_all add: snd_geolocation_override case_prod_beta split: sum.splits option.splits)

lemma apply_no_teardown:
  "teardown_calls (snd (apply_fingerprint_overrides env h profile)) = []"
  by (simp add: snd_apply_fingerprint_overrides geolocation_override_projections
        teardown_calls_append split: option.splits)


lemma start_profile_trace:
  "\<exists>pre mid post.
      trace (snd (start_profile env profile chrome_flags start_pages self))
        = trace self @ pre @ mid @ post
      \<and> (\<forall>ev \<in> set pre. is_plain ev) \<and> (\<forall>ev \<in> set post. is_plain ev)
      \<and> (mid = [] \<or> (\<exists>h. mid = snd (apply_fingerprint_overrides env h profile)))
      \<and> (\<forall>r. fst (start_profile env profile chrome_flags start_pages self) = Inr r \<longrightarrow>
            (\<exists>h. mid = snd (apply_fingerprint_overrides env h profile)))"
proof (cases "map_of (running_profiles self) (id' profile) \<noteq> None")
  case True
  then show ?thesis
    by (intro exI [of _ "[]"]) (simp add: start_profile_def)
next
  case False
  obtain pre mid post where
    shape: "snd (launch_session env profile chrome_flags start_pages) = pre @ mid @ post"
    and plain: "\<forall>ev \<in> set pre. is_plain ev" "\<forall>ev \<in> set post. is_plain ev"
    and mid: "mid = [] \<or> (\<exists>h. mid = snd (apply_fingerprint_overrides env h profile))"
    and ok: "\<forall>data. fst (launch_session env profile chrome_flags start_pages) = Inr data \<longrightarrow>
            mid = snd (apply_fingerprint_overrides env (sb_context data) profile)"
    using launch_session_events [of env profile chrome_flags start_pages] by blast
  have tr: "trace (snd (start_profile env profile chrome_flags start_pages self))
              = trace self @ pre @ mid @ post"
    using False shape
    by (cases "launch_session env profile chrome_flags start_pages")
       (auto simp add: start_profile_def split: sum.splits)
  have "\<exists>h. mid = snd (apply_fingerprint_overrides env h profile)"
    if "fst (start_profile env profile chrome_flags start_pages self) = Inr r" for r
  proof -
    from that False obtain data where
      "fst (launch_session env profile chrome_flags start_pages) = Inr data"
      by (cases "launch_session env profile chrome_flags start_pages")
         (auto simp add: start_profile_def split: sum.splits)
    with ok show ?thesis by blast
  qed
  with tr plain mid show ?thesis
    by (intro exI [of _ pre] exI [of _ mid] exI [of _ post]) blast
qed

lemma start_profile_failure_registry:
  "fst (start_profile env profile chrome_flags start_pages self) = Inl e
     \<Longrightarrow> running_profiles (snd (start_profile env profile chrome_flags start_pages self))
           = running_profiles self"
  by (cases "launch_session env profile chrome_flags start_pages")
     (auto simp add: start_profile_def split: if_splits sum.splits)

lemma start_profile_success:
  assumes "fst (start_profile env profile chrome_flags start_pages self) = Inr r"
  shows "\<exists>data. fst (launch_session env profile chrome_flags start_pages) = Inr data
           \<and> r = \<lparr>debug_port = session.debug_port data, websocket_link = websocket_url data,
                   pid = session.pid data\<rparr>"
  using assms
  by (cases "launch_session env profile chrome_flags start_pages")
     (auto simp add: start_profile_def split: if_splits sum.splits)

lemma demo_start_succeeds:
  "fst (start_profile quiet_env demo_profile [] [] empty_manager)
     = Inr \<lparr>debug_port = 9515,
            websocket_link = JStr ''ws://127.0.0.1:9515/devtools/browser/abc'',
            pid = Some 4242\<rparr>"
  by (simp add: run_defs str_int_9515)


text \<open>
  The list stands for a dictionary: its keys stay distinct under starts and stops, so
  that deleting a key is deleting its one entry.
\<close>

lemma registry_keys_distinct:
  assumes "distinct (map fst (running_profiles self))"
  shows "distinct (map fst (running_profiles
                      (snd (start_profile env profile chrome_flags start_pages self))))"
    and "distinct (map fst (running_profiles (snd (stop_profile env profile_id self))))"
proof -
  show "distinct (map fst (running_profiles
                      (snd (start_profile env profile chrome_flags start_pages self))))"
    using assms
    by (cases "launch_session env profile chrome_flags start_pages")
       (auto simp add: start_profile_def distinct_update split: sum.splits)
  show "distinct (map fst (running_profiles (snd (stop_profile env profile_id self))))"
    using assms by (simp add: stop_profile_registry distinct_delete)
qed

section \<open>Starting twice\<close>




section \<open>A start that fails\<close>

text \<open>
  C1, amended. When a start fails, at whatever step, the registry is exactly as it was:
  no entry is created for the profile id. No start, failed or not, leaves a context
  manager or terminates a process: the launched browser is not torn down by
  \<^verbatim>\<open>start_profile\<close>.
\<close>

theorem start_profile_failure_no_entry_no_teardown:
  "(\<forall>e. fst (start_profile env profile chrome_flags start_pages self) = Inl e \<longrightarrow>
      running_profiles (snd (start_profile env profile chrome_flags start_pages self))
        = running_profiles self)
   \<and> teardown_calls (trace (snd (start_profile env profile chrome_flags start_pages self)))
       = teardown_calls (trace self)"
proof -
  obtain pre mid post where
    tr: "trace (snd (start_profile env profile chrome_flags start_pages self))
        = trace self @ pre @ mid @ post"
    and plain: "\<forall>ev \<in> set pre. is_plain ev" "\<forall>ev \<in> set post. is_plain ev"
    and mid: "mid = [] \<or> (\<exists>h. mid = snd (apply_fingerprint_overrides env h profile))"
    using start_profile_trace [of env profile chrome_flags start_pages self] by blast
  have "teardown_calls mid = []"
    using mid apply_no_teardown [of env _ profile] by auto
  then have "teardown_calls (trace (snd (start_profile env profile chrome_flags start_pages self)))
       = teardown_calls (trace self)"
    using tr plain_projections(1) [OF plain(1)] plain_projections(1) [OF plain(2)]
    by (simp add: teardown_calls_append)
  then show ?thesis
    using start_profile_failure_registry [of env profile chrome_flags start_pages self]
    by blast
qed

theorem start_profile_failure_no_entry_no_teardown_witness:
  "fst (start_profile blank_failing_env demo_profile [] [] empty_manager)
     = Inl (LibraryError ''WebDriverException'')
   \<and> running_profiles (snd (start_profile blank_failing_env demo_profile [] [] empty_manager))
       = running_profiles empty_manager
   \<and> teardown_calls (trace (snd (start_profile blank_failing_env demo_profile [] [] empty_manager)))
       = teardown_calls (trace empty_manager)"
proof -
  have failed: "fst (start_profile blank_failing_env demo_profile [] [] empty_manager)
     = Inl (LibraryError ''WebDriverException'')"
    by (simp add: run_defs blank_failing_env_def)
  show ?thesis
    using failed
      start_profile_failure_no_entry_no_teardown
        [of blank_failing_env demo_profile "[]" "[]" empty_manager]
    by simp
qed

text \<open>
  The launch returns, the second start page fails to open: the failure reaches the
  caller, the registry stays empty, and the calls made end with the failed one, none of
  them a teardown.
\<close>

theorem start_profile_leaves_process_counterexample:
  "start_profile page_failing_env demo_profile [] [''http://a'', ''http://b''] empty_manager
     = (Inl (LibraryError ''JavascriptException''),
        \<lparr>running_profiles = [],
         trace =
           [MakeDirs ''/srv/profiles/profile_p1'',
            SBEnter ''/srv/profiles/profile_p1''
              ''--window-size=1920,1080,--proxy-server=socks5://u:p@host:1080,--disable-webrtc''
              ''en-US'',
            DriverGet 1 ''about:blank'',
            RequestsGet ''http://127.0.0.1:9515/json/version'',
            ActivateCdpMode 1 ''about:blank'',
            ExecuteCdpCmd 1 (SetUserAgentOverride ''UA''),
            RandInt 1 1000,
            ExecuteCdpCmd 1 (AddScriptToEvaluateOnNewDocument (injection_script demo_profile 42)),
            ExecuteCdpCmd 1 (SetTimezoneOverride ''America/New_York''),
            ExecuteCdpCmd 1 (GrantPermissions [''geolocation'']),
            ExecuteCdpCmd 1 (SetGeolocationOverride (407128 / 10000) (- 740060 / 10000) 100),
            Reconnect 1,
            DriverGet 1 ''http://a'',
            ExecuteScript 1 (''window.open('' @ [CHR 0x27] @ ''http://b'' @ [CHR 0x27]
                              @ '', '' @ [CHR 0x27] @ ''_blank'' @ [CHR 0x27] @ '');'')]\<rparr>)"
  by (simp add: run_defs page_failing_env_def str_int_9515)

section \<open>The endpoint address\<close>

text \<open>
  C4, amended. After a successful start: when the query of the metadata endpoint raises
  or answers with anything but an object, the address returned is the conventional one
  built from the resolved port, which is not empty; when it answers with an object, the
  address is the value of its field \<^verbatim>\<open>webSocketDebuggerUrl\<close>, and the empty
  string when the object has no such field.
\<close>

theorem start_profile_endpoint_address:
  assumes "fst (start_profile env profile chrome_flags start_pages self) = Inr r"
  shows "((\<forall>kv. requests_get_json env
              (''http://127.0.0.1:'' @ str_int (start_result.debug_port r) @ ''/json/version'')
            \<noteq> Inr (JObj kv)) \<longrightarrow>
          websocket_link r
            = JStr (''ws://127.0.0.1:'' @ str_int (start_result.debug_port r) @ ''/devtools/browser'')
          \<and> ''ws://127.0.0.1:'' @ str_int (start_result.debug_port r) @ ''/devtools/browser'' \<noteq> [])
       \<and> (\<forall>kv v. requests_get_json env
              (''http://127.0.0.1:'' @ str_int (start_result.debug_port r) @ ''/json/version'')
            = Inr (JObj kv) \<and> map_of kv ''webSocketDebuggerUrl'' = Some v \<longrightarrow>
          websocket_link r = v)
       \<and> (\<forall>kv. requests_get_json env
              (''http://127.0.0.1:'' @ str_int (start_result.debug_port r) @ ''/json/version'')
            = Inr (JObj kv) \<and> map_of kv ''webSocketDebuggerUrl'' = None \<longrightarrow>
          websocket_link r = JStr [])"
proof -
  obtain data where
    data: "fst (launch_session env profile chrome_flags start_pages) = Inr data"
    and r: "r = \<lparr>debug_port = session.debug_port data, websocket_link = websocket_url data,
                   pid = session.pid data\<rparr>"
    using start_profile_success [OF assms] by blast
  have "websocket_url data
          = (case requests_get_json env
                    (''http://127.0.0.1:'' @ str_int (session.debug_port data)
                       @ ''/json/version'') of
               Inr (JObj kv) \<Rightarrow>
                 (case map_of kv ''webSocketDebuggerUrl'' of None \<Rightarrow> JStr [] | Some v \<Rightarrow> v)
             | _ \<Rightarrow> JStr (''ws://127.0.0.1:'' @ str_int (session.debug_port data)
                          @ ''/devtools/browser''))"
    using launch_session_success [OF data]
    by (simp add: fst_get_websocket_url)
  then show ?thesis
    unfolding r
    by (auto split: sum.splits json.splits)
qed

theorem start_profile_endpoint_address_witness:
  "requests_get_json offline_env ''http://127.0.0.1:9515/json/version''
     = Inl (LibraryError ''ConnectionError'')
   \<and> fst (start_profile offline_env demo_profile [] [] empty_manager)
       = Inr \<lparr>debug_port = 9515,
              websocket_link = JStr ''ws://127.0.0.1:9515/devtools/browser'', pid = Some 4242\<rparr>
   \<and> requests_get_json quiet_env ''http://127.0.0.1:9515/json/version''
       = Inr (JObj [(''webSocketDebuggerUrl'',
                     JStr ''ws://127.0.0.1:9515/devtools/browser/abc'')])
   \<and> fst (start_profile quiet_env demo_profile [] [] empty_manager)
       = Inr \<lparr>debug_port = 9515,
              websocket_link = JStr ''ws://127.0.0.1:9515/devtools/browser/abc'',
              pid = Some 4242\<rparr>
   \<and> requests_get_json keyless_env ''http://127.0.0.1:9515/json/version''
       = Inr (JObj [(''Browser'', JStr ''Chrome/120'')])
   \<and> fst (start_profile keyless_env demo_profile [] [] empty_manager)
       = Inr \<lparr>debug_port = 9515, websocket_link = JStr [], pid = Some 4242\<rparr>"
proof -
  have offline: "fst (start_profile offline_env demo_profile [] [] empty_manager)
     = Inr \<lparr>debug_port = 9515,
            websocket_link = JStr ''ws://127.0.0.1:9515/devtools/browser'', pid = Some 4242\<rparr>"
    by (simp add: run_defs offline_env_def str_int_9515)
  have keyless: "fst (start_profile keyless_env demo_profile [] [] empty_manager)
     = Inr \<lparr>debug_port = 9515, websocket_link = JStr [], pid = Some 4242\<rparr>"
    by (simp add: run_defs keyless_env_def str_int_9515)
  show ?thesis
    using offline demo_start_succeeds keyless
      start_profile_endpoint_address [OF offline]
      start_profile_endpoint_address [OF demo_start_succeeds]
      start_profile_endpoint_address [OF keyless]
    by (simp add: offline_env_def quiet_env_def keyless_env_def)
qed

theorem start_profile_empty_endpoint_counterexample:
  "requests_get_json keyless_env ''http://127.0.0.1:9515/json/version''
     = Inr (JObj [(''Browser'', JStr ''Chrome/120'')])
   \<and> fst (start_profile keyless_env demo_profile [] [] empty_manager)
       = Inr \<lparr>debug_port = 9515, websocket_link = JStr [], pid = Some 4242\<rparr>"
  by (simp add: run_defs keyless_env_def str_int_9515)

section \<open>The noise seed\<close>




lemma apply_draws_exact:
  "draws_of (snd (apply_fingerprint_overrides env h profile))
     = (if reaches_script env profile h then [(1, 1000)] else [])"
  "scripts_of (snd (apply_fingerprint_overrides env h profile))
     = (if reaches_script env profile h
        then [injection_script profile (randint env 1 1000)] else [])"
  by (auto simp add: snd_apply_fingerprint_overrides geolocation_override_projections
        scripts_of_append draws_of_append reaches_script_def split: option.splits)

lemma apply_geolocation_cmds_exact:
  "geolocation_cmds (snd (apply_fingerprint_overrides env h profile))
     = (if reaches_geolocation env profile h
        then geolocation_cmds (snd (geolocation_override env h profile)) else [])"
  by (auto simp add: snd_apply_fingerprint_overrides geolocation_cmds_append
        reaches_geolocation_def reaches_script_def split: option.splits)

lemma start_profile_success_trace:
  assumes "fst (start_profile env profile chrome_flags start_pages self) = Inr r"
  shows "\<exists>data pre post.
           map_of (running_profiles (snd (start_profile env profile chrome_flags start_pages self)))
               (id' profile) = Some data
           \<and> trace (snd (start_profile env profile chrome_flags start_pages self))
               = trace self @ pre @ snd (apply_fingerprint_overrides env (sb_context data) profile)
                 @ post
           \<and> (\<forall>ev \<in> set pre. is_plain ev) \<and> (\<forall>ev \<in> set post. is_plain ev)"
proof -
  obtain data where
    data: "fst (launch_session env profile chrome_flags start_pages) = Inr data"
    using start_profile_success [OF assms] by blast
  obtain pre mid post where
    shape: "snd (launch_session env profile chrome_flags start_pages) = pre @ mid @ post"
    and plain: "\<forall>ev \<in> set pre. is_plain ev" "\<forall>ev \<in> set post. is_plain ev"
    and ok: "\<forall>data. fst (launch_session env profile chrome_flags start_pages) = Inr data \<longrightarrow>
            mid = snd (apply_fingerprint_overrides env (sb_context data) profile)"
    using launch_session_events [of env profile chrome_flags start_pages] by blast
  from ok data have mid: "mid = snd (apply_fingerprint_overrides env (sb_context data) profile)"
    by blast
  have absent: "map_of (running_profiles self) (id' profile) = None"
    using assms by (auto simp add: start_profile_def split: if_splits)
  have "map_of (running_profiles (snd (start_profile env profile chrome_flags start_pages self)))
               (id' profile) = Some data
        \<and> trace (snd (start_profile env profile chrome_flags start_pages self))
               = trace self @ pre @ mid @ post"
    using absent data shape
    by (cases "launch_session env profile chrome_flags start_pages")
       (auto simp add: start_profile_def update_conv' split: sum.splits)
  with plain mid show ?thesis
    by blast
qed

lemma start_profile_draws_success:
  assumes "fst (start_profile env profile chrome_flags start_pages self) = Inr r"
    and "map_of (running_profiles (started env profile chrome_flags start_pages self))
           (id' profile) = Some data"
  shows "draws_of (trace (started env profile chrome_flags start_pages self))
           = draws_of (trace self)
             @ (if reaches_script env profile (sb_context data) then [(1, 1000)] else [])"
    and "scripts_of (trace (started env profile chrome_flags start_pages self))
           = scripts_of (trace self)
             @ (if reaches_script env profile (sb_context data)
                then [injection_script profile (randint env 1 1000)] else [])"
    and "geolocation_cmds (trace (started env profile chrome_flags start_pages self))
           = geolocation_cmds (trace self)
             @ (if reaches_geolocation env profile (sb_context data)
                then geolocation_cmds (snd (geolocation_override env (sb_context data) profile))
                else [])"
proof -
  obtain data' pre post where
    entry: "map_of (running_profiles (started env profile chrome_flags start_pages self))
               (id' profile) = Some data'"
    and tr: "trace (started env profile chrome_flags start_pages self)
               = trace self @ pre @ snd (apply_fingerprint_overrides env (sb_context data') profile)
                 @ post"
    and plain: "\<forall>ev \<in> set pre. is_plain ev" "\<forall>ev \<in> set post. is_plain ev"
    using start_profile_success_trace [OF assms(1)] by blast
  from entry assms(2) have same: "data' = data" by simp
  note pre = plain_projections [OF plain(1)]
  note post = plain_projections [OF plain(2)]
  show "draws_of (trace (started env profile chrome_flags start_pages self))
           = draws_of (trace self)
             @ (if reaches_script env profile (sb_context data) then [(1, 1000)] else [])"
    unfolding tr same using pre(2) post(2)
    by (simp add: draws_of_append apply_draws_exact)
  show "scripts_of (trace (started env profile chrome_flags start_pages self))
           = scripts_of (trace self)
             @ (if reaches_script env profile (sb_context data)
                then [injection_script profile (randint env 1 1000)] else [])"
    unfolding tr same using pre(3) post(3)
    by (simp add: scripts_of_append apply_draws_exact)
  show "geolocation_cmds (trace (started env profile chrome_flags start_pages self))
           = geolocation_cmds (trace self)
             @ (if reaches_geolocation env profile (sb_context data)
                then geolocation_cmds (snd (geolocation_override env (sb_context data) profile))
                else [])"
    unfolding tr same using pre(4) post(4)
    by (simp add: geolocation_cmds_append apply_geolocation_cmds_exact)
qed


lemma quiet_reaches:
  "reaches_script quiet_env demo_profile h" "reaches_script reseeded_env demo_profile h"
  "reaches_geolocation quiet_env demo_profile h"
  by (simp_all add: reaches_script_def reaches_geolocation_def quiet_env_def reseeded_env_def)




section \<open>The geolocation override\<close>

lemma split_on_no_sep: "sep \<notin> set s \<Longrightarrow> split_on sep s = [s]"
  by (induction s) auto

lemma split_on_pair_has_sep:
  assumes "split_on sep s = [a, b]"
  shows "sep \<in> set s" and "s \<noteq> []"
proof -
  show "sep \<in> set s"
  proof (rule ccontr)
    assume "sep \<notin> set s"
    then have "split_on sep s = [s]" by (rule split_on_no_sep)
    with assms show False by simp
  qed
  then show "s \<noteq> []" by auto
qed

lemma parse_lat_lon_Inr:
  "parse_lat_lon env g = Inr (lat, lon)
     \<longleftrightarrow> (\<exists>a b. split_on CHR '','' g = [a, b]
                  \<and> parse_float env a = Some lat \<and> parse_float env b = Some lon)"
  by (auto simp add: parse_lat_lon_def split: list.splits option.splits)

lemma geolocation_override_skipped:
  assumes "\<forall>g. geolocation profile = Some g \<longrightarrow>
             \<not> (\<exists>a b lat lon. split_on CHR '','' g = [a, b]
                    \<and> parse_float env a = Some lat \<and> parse_float env b = Some lon)"
  shows "geolocation_override env h profile = io_return ()"
proof (cases "geolocation profile")
  case None
  then show ?thesis
    by (simp add: geolocation_override_def truthy_str_def)
next
  case (Some g)
  with assms have "parse_lat_lon env g \<noteq> Inr (lat, lon)" for lat lon
    unfolding parse_lat_lon_Inr by blast
  then obtain e where "parse_lat_lon env g = Inl e"
    by (cases "parse_lat_lon env g") auto
  with Some show ?thesis
    by (simp add: geolocation_override_def io_bind_def io_raise_def io_return_def
          try_except_def)
qed

lemma injection_script_geolocation:
  "injection_script (profile\<lparr>geolocation := x\<rparr>) noise_seed = injection_script profile noise_seed"
  by (simp add: injection_script_def)

lemma apply_without_geolocation:
  assumes "geolocation_override env h profile = io_return ()"
  shows "apply_fingerprint_overrides env h (profile\<lparr>geolocation := None\<rparr>)
           = apply_fingerprint_overrides env h profile"
proof -
  have "geolocation_override env h (profile\<lparr>geolocation := None\<rparr>) = io_return ()"
    by (simp add: geolocation_override_def truthy_str_def)
  with assms show ?thesis
    by (simp add: apply_fingerprint_overrides_def injection_script_geolocation)
qed

lemma launch_without_geolocation:
  assumes "\<forall>h. geolocation_override env h profile = io_return ()"
  shows "launch_session env (profile\<lparr>geolocation := None\<rparr>) chrome_flags start_pages
           = launch_session env profile chrome_flags start_pages"
proof -
  have "build_chrome_options (profile\<lparr>geolocation := None\<rparr>) d chrome_flags
          = build_chrome_options profile d chrome_flags" for d
    by (simp add: build_chrome_options_def cong: sum.case_cong if_cong)
  with assms show ?thesis
    by (simp add: launch_session_def apply_without_geolocation)
qed

lemma start_without_geolocation:
  assumes "\<forall>h. geolocation_override env h profile = io_return ()"
  shows "start_profile env (profile\<lparr>geolocation := None\<rparr>) chrome_flags start_pages self
           = start_profile env profile chrome_flags start_pages self"
  using assms
  by (simp add: start_profile_def launch_without_geolocation
        cong: sum.case_cong prod.case_cong)

lemma apply_geolocation_cmds:
  "geolocation_cmds (snd (apply_fingerprint_overrides env h profile)) = []
   \<or> geolocation_cmds (snd (apply_fingerprint_overrides env h profile))
       = geolocation_cmds (snd (geolocation_override env h profile))"
  by (simp add: snd_apply_fingerprint_overrides geolocation_cmds_append split: option.splits)

lemma geolocation_override_cmds:
  assumes "geolocation profile = Some g" and "split_on CHR '','' g = [a, b]"
    and "parse_float env a = Some lat" and "parse_float env b = Some lon"
  shows "geolocation_cmds (snd (geolocation_override env h profile))
           = GrantPermissions [''geolocation'']
             # (case execute_cdp_cmd env h (GrantPermissions [''geolocation'']) of
                  None \<Rightarrow> [SetGeolocationOverride lat lon 100]
                | Some e \<Rightarrow> [])"
proof -
  have "parse_lat_lon env g = Inr (lat, lon)"
    using assms(2-4) by (simp add: parse_lat_lon_Inr)
  then show ?thesis
    using assms(1) split_on_pair_has_sep [OF assms(2)]
    by (simp add: snd_geolocation_override truthy_str_def split: option.splits)
qed

text \<open>
  C9, amended. Let the geolocation split on the comma into exactly two parts that
  \<^verbatim>\<open>float\<close> accepts. A successful start whose injection reaches the geolocation
  step sends the grant of the permission \<^verbatim>\<open>geolocation\<close> and, when the grant
  returns, the override with that latitude, that longitude and accuracy 100; a
  successful start whose injection does not reach the step sends no geolocation
  command. For a geolocation that does not parse so, no geolocation command is sent and
  the start does exactly what it does for the same profile without a geolocation: the
  step is skipped silently, and a start that would succeed still succeeds.
\<close>

theorem geolocation_applied_or_skipped:
  "(\<forall>r data g a b lat lon.
       fst (start_profile env profile chrome_flags start_pages self) = Inr r
       \<and> map_of (running_profiles (started env profile chrome_flags start_pages self))
            (id' profile) = Some data
       \<and> geolocation profile = Some g \<and> split_on CHR '','' g = [a, b]
       \<and> parse_float env a = Some lat \<and> parse_float env b = Some lon
     \<longrightarrow> geolocation_cmds (trace (started env profile chrome_flags start_pages self))
           = geolocation_cmds (trace self)
             @ (if reaches_geolocation env profile (sb_context data)
                then GrantPermissions [''geolocation'']
                     # (case execute_cdp_cmd env (sb_context data)
                               (GrantPermissions [''geolocation'']) of
                          None \<Rightarrow> [SetGeolocationOverride lat lon 100]
                        | Some e \<Rightarrow> [])
                else []))
   \<and> ((\<forall>g. geolocation profile = Some g \<longrightarrow>
           \<not> (\<exists>a b lat lon. split_on CHR '','' g = [a, b]
                  \<and> parse_float env a = Some lat \<and> parse_float env b = Some lon))
     \<longrightarrow> start_profile env profile chrome_flags start_pages self
           = start_profile env (profile\<lparr>geolocation := None\<rparr>) chrome_flags start_pages self
         \<and> geolocation_cmds (trace (started env profile chrome_flags start_pages self))
           = geolocation_cmds (trace self))"
proof -
  have sent: "geolocation_cmds (trace (started env profile chrome_flags start_pages self))
           = geolocation_cmds (trace self)
             @ (if reaches_geolocation env profile (sb_context data)
                then GrantPermissions [''geolocation'']
                     # (case execute_cdp_cmd env (sb_context data)
                               (GrantPermissions [''geolocation'']) of
                          None \<Rightarrow> [SetGeolocationOverride lat lon 100]
                        | Some e \<Rightarrow> [])
                else [])"
    if h: "fst (start_profile env profile chrome_flags start_pages self) = Inr r
       \<and> map_of (running_profiles (started env profile chrome_flags start_pages self))
            (id' profile) = Some data
       \<and> geolocation profile = Some g \<and> split_on CHR '','' g = [a, b]
       \<and> parse_float env a = Some lat \<and> parse_float env b = Some lon"
    for r data g a b lat lon
  proof -
    have "geolocation_cmds (snd (geolocation_override env (sb_context data) profile))
           = GrantPermissions [''geolocation'']
             # (case execute_cdp_cmd env (sb_context data) (GrantPermissions [''geolocation'']) of
                  None \<Rightarrow> [SetGeolocationOverride lat lon 100]
                | Some e \<Rightarrow> [])"
      using h geolocation_override_cmds [of profile g a b env lat lon "sb_context data"]
      by blast
    then show ?thesis
      using h start_profile_draws_success(3)
                [of env profile chrome_flags start_pages self r data]
      by simp
  qed
  have skipped:
    "start_profile env profile chrome_flags start_pages self
           = start_profile env (profile\<lparr>geolocation := None\<rparr>) chrome_flags start_pages self
     \<and> geolocation_cmds (trace (started env profile chrome_flags start_pages self))
           = geolocation_cmds (trace self)"
    if "\<forall>g. geolocation profile = Some g \<longrightarrow>
           \<not> (\<exists>a b lat lon. split_on CHR '','' g = [a, b]
                  \<and> parse_float env a = Some lat \<and> parse_float env b = Some lon)"
  proof -
    obtain pre mid post where
      tr: "trace (started env profile chrome_flags start_pages self)
             = trace self @ pre @ mid @ post"
      and plain: "\<forall>ev \<in> set pre. is_plain ev" "\<forall>ev \<in> set post. is_plain ev"
      and mid: "mid = [] \<or> (\<exists>h. mid = snd (apply_fingerprint_overrides env h profile))"
      using start_profile_trace [of env profile chrome_flags start_pages self] by blast
    have none: "\<forall>h. geolocation_override env h profile = io_return ()"
      using that by (simp add: geolocation_override_skipped)
    then have "geolocation_cmds (snd (apply_fingerprint_overrides env h profile)) = []" for h
      using apply_geolocation_cmds [of env h profile] by (simp add: io_basic)
    with mid have "geolocation_cmds mid = []" by auto
    then have "geolocation_cmds (trace (started env profile chrome_flags start_pages self))
                 = geolocation_cmds (trace self)"
      using tr plain_projections(4) [OF plain(1)] plain_projections(4) [OF plain(2)]
      by (simp add: geolocation_cmds_append)
    with none show ?thesis
      by (simp add: start_without_geolocation)
  qed
  show ?thesis
    using sent skipped by blast
qed

theorem geolocation_applied_or_skipped_witness:
  "geolocation demo_profile = Some ''40.7128,-74.0060''
   \<and> split_on CHR '','' ''40.7128,-74.0060'' = [''40.7128'', ''-74.0060'']
   \<and> parse_float quiet_env ''40.7128'' = Some (407128 / 10000)
   \<and> parse_float quiet_env ''-74.0060'' = Some (- 740060 / 10000)
   \<and> reaches_geolocation quiet_env demo_profile 1
   \<and> geolocation_cmds (trace (started quiet_env demo_profile [] [] empty_manager))
       = [GrantPermissions [''geolocation''],
          SetGeolocationOverride (407128 / 10000) (- 740060 / 10000) 100]
   \<and> split_on CHR '','' ''not-a-pair'' = [''not-a-pair'']
   \<and> start_profile quiet_env unparsable_profile [] [] empty_manager
       = start_profile quiet_env (unparsable_profile\<lparr>geolocation := None\<rparr>) [] [] empty_manager
   \<and> fst (start_profile quiet_env unparsable_profile [] [] empty_manager)
       = Inr \<lparr>debug_port = 9515,
              websocket_link = JStr ''ws://127.0.0.1:9515/devtools/browser/abc'',
              pid = Some 4242\<rparr>
   \<and> geolocation_cmds (trace (started quiet_env unparsable_profile [] [] empty_manager)) = []"
proof -
  have parsed:
    "geolocation demo_profile = Some ''40.7128,-74.0060''"
    "split_on CHR '','' ''40.7128,-74.0060'' = [''40.7128'', ''-74.0060'']"
    "parse_float quiet_env ''40.7128'' = Some (407128 / 10000)"
    "parse_float quiet_env ''-74.0060'' = Some (- 740060 / 10000)"
    by (simp_all add: demo_profile_def quiet_env_def)
  obtain data where
    data: "map_of (running_profiles (started quiet_env demo_profile [] [] empty_manager))
             (id' demo_profile) = Some data"
    using start_profile_success_trace [OF demo_start_succeeds] by blast
  have grant: "execute_cdp_cmd quiet_env (sb_context data) (GrantPermissions [''geolocation''])
                 = None"
    by (simp add: quiet_env_def)
  have "geolocation_cmds (trace (started quiet_env demo_profile [] [] empty_manager))
          = geolocation_cmds (trace empty_manager)
            @ (if reaches_geolocation quiet_env demo_profile (sb_context data)
               then GrantPermissions [''geolocation'']
                    # (case execute_cdp_cmd quiet_env (sb_context data)
                              (GrantPermissions [''geolocation'']) of
                         None \<Rightarrow> [SetGeolocationOverride (407128 / 10000) (- 740060 / 10000) 100]
                       | Some e \<Rightarrow> [])
               else [])"
    using demo_start_succeeds data parsed
      geolocation_applied_or_skipped [of quiet_env demo_profile "[]" "[]" empty_manager]
    by blast
  then have sent:
    "geolocation_cmds (trace (started quiet_env demo_profile [] [] empty_manager))
       = [GrantPermissions [''geolocation''],
          SetGeolocationOverride (407128 / 10000) (- 740060 / 10000) 100]"
    using quiet_reaches(3) [of "sb_context data"] grant
    by (simp add: empty_manager_def)
  have unparsable:
    "split_on CHR '','' ''not-a-pair'' = [''not-a-pair'']"
    "geolocation unparsable_profile = Some ''not-a-pair''"
    by (simp_all add: unparsable_profile_def)
  then have malformed:
    "\<forall>g. geolocation unparsable_profile = Some g \<longrightarrow>
       \<not> (\<exists>a b lat lon. split_on CHR '','' g = [a, b]
              \<and> parse_float quiet_env a = Some lat \<and> parse_float quiet_env b = Some lon)"
    by simp
  have same:
    "start_profile quiet_env unparsable_profile [] [] empty_manager
       = start_profile quiet_env (unparsable_profile\<lparr>geolocation := None\<rparr>) [] [] empty_manager"
    and none:
    "geolocation_cmds (trace (started quiet_env unparsable_profile [] [] empty_manager))
       = geolocation_cmds (trace empty_manager)"
    using malformed
      geolocation_applied_or_skipped [of quiet_env unparsable_profile "[]" "[]" empty_manager]
    by blast+
  have skipped:
    "geolocation_cmds (trace (started quiet_env unparsable_profile [] [] empty_manager)) = []"
    using none by (simp add: empty_manager_def)
  have still: "fst (start_profile quiet_env unparsable_profile [] [] empty_manager)
       = Inr \<lparr>debug_port = 9515,
              websocket_link = JStr ''ws://127.0.0.1:9515/devtools/browser/abc'',
              pid = Some 4242\<rparr>"
    by (simp add: run_defs unparsable_profile_def str_int_9515)
  show ?thesis
    using parsed quiet_reaches(3) [of 1] sent unparsable(1) same skipped still by blast
qed

theorem geolocation_not_sent_counterexample:
  "geolocation demo_profile = Some ''40.7128,-74.0060''
   \<and> split_on CHR '','' ''40.7128,-74.0060'' = [''40.7128'', ''-74.0060'']
   \<and> parse_float script_refusing_env ''40.7128'' = Some (407128 / 10000)
   \<and> parse_float script_refusing_env ''-74.0060'' = Some (- 740060 / 10000)
   \<and> fst (start_profile script_refusing_env demo_profile [] [] empty_manager)
       = Inr \<lparr>debug_port = 9515,
              websocket_link = JStr ''ws://127.0.0.1:9515/devtools/browser/abc'',
              pid = Some 4242\<rparr>
   \<and> trace (started script_refusing_env demo_profile [] [] empty_manager)
       = [MakeDirs ''/srv/profiles/profile_p1'',
          SBEnter ''/srv/profiles/profile_p1''
            ''--window-size=1920,1080,--proxy-server=socks5://u:p@host:1080,--disable-webrtc''
            ''en-US'',
          DriverGet 1 ''about:blank'',
          RequestsGet ''http://127.0.0.1:9515/json/version'',
          ActivateCdpMode 1 ''about:blank'',
          ExecuteCdpCmd 1 (SetUserAgentOverride ''UA''),
          RandInt 1 1000,
          ExecuteCdpCmd 1 (AddScriptToEvaluateOnNewDocument (injection_script demo_profile 42))]
   \<and> geolocation_cmds (trace (started script_refusing_env demo_profile [] [] empty_manager)) = []"
proof -
  have run: "start_profile script_refusing_env demo_profile [] [] empty_manager
     = (Inr \<lparr>debug_port = 9515,
            websocket_link = JStr ''ws://127.0.0.1:9515/devtools/browser/abc'',
            pid = Some 4242\<rparr>,
        \<lparr>running_profiles = [(''p1'', demo_session)],
         trace =
           [MakeDirs ''/srv/profiles/profile_p1'',
            SBEnter ''/srv/profiles/profile_p1''
              ''--window-size=1920,1080,--proxy-server=socks5://u:p@host:1080,--disable-webrtc''
              ''en-US'',
            DriverGet 1 ''about:blank'',
            RequestsGet ''http://127.0.0.1:9515/json/version'',
            ActivateCdpMode 1 ''about:blank'',
            ExecuteCdpCmd 1 (SetUserAgentOverride ''UA''),
            RandInt 1 1000,
            ExecuteCdpCmd 1
              (AddScriptToEvaluateOnNewDocument (injection_script demo_profile 42))]\<rparr>)"
    by (simp add: run_defs script_refusing_env_def str_int_9515 demo_session_def)
  have parsed:
    "geolocation demo_profile = Some ''40.7128,-74.0060''"
    "split_on CHR '','' ''40.7128,-74.0060'' = [''40.7128'', ''-74.0060'']"
    "parse_float script_refusing_env ''40.7128'' = Some (407128 / 10000)"
    "parse_float script_refusing_env ''-74.0060'' = Some (- 740060 / 10000)"
    by (simp_all add: demo_profile_def quiet_env_def script_refusing_env_def)
  show ?thesis
    using parsed by (simp add: run)
qed

end
